theory Spec2Isabelle
  imports Main "HOL-Library.Word" "HOL-Library.Log_Nat"
begin

unbundle bit_operations_syntax

section \<open>Go values shared by the embedding\<close>

text \<open>
  A Go function of this package either returns normally, returns a non-nil \<open>error\<close>,
  or panics (a failed type assertion, a slice expression out of range, a method call on a
  nil interface). The three are kept apart.
\<close>

datatype ('e, 'a) outcome = Ok 'a | Error 'e | Panic

type_synonym byte = "8 word"

text \<open>\<open>big.Int.SetBytes\<close>: the bytes read as a big-endian unsigned integer.\<close>

definition setBytes :: "byte list \<Rightarrow> int" where
  "setBytes bs = foldl (\<lambda>acc b. acc * 256 + uint b) 0 bs"

text \<open>\<open>big.Int.BitLen\<close>: the length of the absolute value in bits, 0 for 0.\<close>

definition BitLen :: "int \<Rightarrow> nat" where
  "BitLen x = floorlog 2 (nat \<bar>x\<bar>)"

text \<open>\<open>int(x.Uint64())\<close> on a 64-bit platform: the low 64 bits, read as two's complement.\<close>

definition int_of_Uint64 :: "int \<Rightarrow> int" where
  "int_of_Uint64 x = sint (word_of_int x :: 64 word)"

text \<open>
  The slice expression \<open>s[lo:hi]\<close>: it panics unless \<open>0 \<le> lo \<le> hi \<le> cap(s)\<close>. The slices
  it is applied to here are taken to have their length as their capacity.
\<close>

definition slice :: "'a list \<Rightarrow> int \<Rightarrow> int \<Rightarrow> 'a list option" where
  "slice s lo hi =
     (if 0 \<le> lo \<and> lo \<le> hi \<and> hi \<le> int (length s)
      then Some (take (nat (hi - lo)) (drop (nat lo) s))
      else None)"

section \<open>ABI decoding: the length prefix of a dynamic type\<close>

datatype abi_error =
    OffsetOverSliceBoundary int int
  | OffsetLargerThanInt64 int
  | LengthLargerThanInt64 int
  | LengthInsufficient int int

text \<open>\<open>lengthPrefixPointsTo\<close> of api/privacy/models.go; \<open>common.Big32\<close> is 32.\<close>

definition lengthPrefixPointsTo :: "int \<Rightarrow> byte list \<Rightarrow> (abi_error, int \<times> int) outcome" where
  "lengthPrefixPointsTo index output =
     (case slice output index (index + 32) of
        None \<Rightarrow> Panic
      | Some offsetWord \<Rightarrow>
          let bigOffsetEnd = setBytes offsetWord + 32;
              outputLength = int (length output)
          in if bigOffsetEnd > outputLength
               then Error (OffsetOverSliceBoundary bigOffsetEnd outputLength)
             else if BitLen bigOffsetEnd > 63
               then Error (OffsetLargerThanInt64 bigOffsetEnd)
             else
               let offsetEnd = int_of_Uint64 bigOffsetEnd
               in (case slice output (offsetEnd - 32) offsetEnd of
                     None \<Rightarrow> Panic
                   | Some lengthWord \<Rightarrow>
                       let lengthBig = setBytes lengthWord;
                           totalSize = 0 + bigOffsetEnd + lengthBig
                       in if BitLen totalSize > 63
                            then Error (LengthLargerThanInt64 totalSize)
                          else if totalSize > outputLength
                            then Error (LengthInsufficient outputLength totalSize)
                          else Ok (int_of_Uint64 bigOffsetEnd, int_of_Uint64 lengthBig)))"

section \<open>ABI encoding: coercion of native values\<close>

text \<open>
  The type tags of \<open>abi.Type.T\<close> and the kinds of \<open>reflect.Kind\<close> that the package
  switches on (\<open>K_Other\<close> stands for every remaining kind).
\<close>

datatype abi_T =
    IntTy | UintTy | BoolTy | StringTy | SliceTy | ArrayTy | TupleTy | AddressTy
  | FixedBytesTy | BytesTy | HashTy | FixedPointTy | FunctionTy

datatype reflect_Kind =
    K_Uint | K_Uint8 | K_Uint16 | K_Uint32 | K_Uint64
  | K_Int | K_Int8 | K_Int16 | K_Int32 | K_Int64
  | K_Float64 | K_Ptr | K_Other

text \<open>
  \<open>abi.Type\<close>: the fields the package reads. \<open>ty_String\<close> is the result of the type's
  \<open>String()\<close> method, \<open>ty_Elem\<close> the element type of an array or slice (\<open>None\<close> is nil).
\<close>

datatype abi_Type =
  AbiType (ty_T: abi_T) (ty_Kind: reflect_Kind) (ty_Size: int)
          (ty_Elem: "abi_Type option") (ty_String: string)

text \<open>
  The dynamic values an \<open>interface{}\<close> holds in this package. A value produced by a library
  call whose arithmetic plays no part here is kept as that call: \<open>GoBigIntOfFloat64 f\<close> is
  \<open>big.NewInt(int64(f))\<close> for the float with bit pattern \<open>f\<close>, \<open>GoHexToAddress s\<close> is
  \<open>common.HexToAddress(s)\<close>, \<open>GoBytesToAddress b\<close> and \<open>GoBytesToHash b\<close> likewise.
\<close>

datatype go_value =
    GoNil
  | GoBool bool
  | GoString string
  | GoBytes "byte list"
  | GoInt64 "64 word"
  | GoFloat64 "64 word"
  | GoInterfaces "go_value list"
  | GoBigInt int
  | GoBigIntOfFloat64 "64 word"
  | GoBigInts "go_value list"
  | GoUint8 "8 word" | GoUint16 "16 word" | GoUint32 "32 word" | GoUint64 "64 word"
  | GoInt8 "8 word" | GoInt16 "16 word" | GoInt32 "32 word"
  | GoHexToAddress string
  | GoBytesToAddress "byte list"
  | GoBytesToHash "byte list"
  | GoByteArray "byte list"
  | GoReflectSlice abi_Type "go_value list"
  | GoReflectArray abi_Type "go_value list"
  | GoOther nat

datatype coerce_error =
    UnhandledType abi_Type
  | NegativeSize int
  | OverSliceBoundary int int
  | InvalidArrayType
  | InvalidFixedBytesType
  | InvalidFunctionType
  | ImproperFunctionType "byte list"

text \<open>\<open>[]byte(s)\<close> and \<open>string(b)\<close>.\<close>

definition bytes_of_string :: "string \<Rightarrow> byte list" where
  "bytes_of_string s = map (\<lambda>c. of_char c) s"

definition string_of_bytes :: "byte list \<Rightarrow> string" where
  "string_of_bytes b = map (\<lambda>x. char_of (unat x)) b"

text \<open>
  \<open>readInteger\<close>: the trailing bytes of the word, big-endian. An index or slice
  expression past the front of \<open>b\<close> panics.
\<close>

definition trailing :: "nat \<Rightarrow> byte list \<Rightarrow> byte list option" where
  "trailing k b = (if k \<le> length b then Some (drop (length b - k) b) else None)"

definition readInteger :: "reflect_Kind \<Rightarrow> byte list \<Rightarrow> (coerce_error, go_value) outcome" where
  "readInteger kind b =
     (case kind of
        K_Uint8 \<Rightarrow> (case trailing 1 b of None \<Rightarrow> Panic | Some t \<Rightarrow> Ok (GoUint8 (word_of_int (setBytes t))))
      | K_Uint16 \<Rightarrow> (case trailing 2 b of None \<Rightarrow> Panic | Some t \<Rightarrow> Ok (GoUint16 (word_of_int (setBytes t))))
      | K_Uint32 \<Rightarrow> (case trailing 4 b of None \<Rightarrow> Panic | Some t \<Rightarrow> Ok (GoUint32 (word_of_int (setBytes t))))
      | K_Uint64 \<Rightarrow> (case trailing 8 b of None \<Rightarrow> Panic | Some t \<Rightarrow> Ok (GoUint64 (word_of_int (setBytes t))))
      | K_Int8 \<Rightarrow> (case trailing 1 b of None \<Rightarrow> Panic | Some t \<Rightarrow> Ok (GoInt8 (word_of_int (setBytes t))))
      | K_Int16 \<Rightarrow> (case trailing 2 b of None \<Rightarrow> Panic | Some t \<Rightarrow> Ok (GoInt16 (word_of_int (setBytes t))))
      | K_Int32 \<Rightarrow> (case trailing 4 b of None \<Rightarrow> Panic | Some t \<Rightarrow> Ok (GoInt32 (word_of_int (setBytes t))))
      | K_Int64 \<Rightarrow> (case trailing 8 b of None \<Rightarrow> Panic | Some t \<Rightarrow> Ok (GoInt64 (word_of_int (setBytes t))))
      | _ \<Rightarrow> Ok (GoBigInt (setBytes b)))"

text \<open>
  \<open>readFunctionType\<close>: the word must hold 24 bytes followed by eight zero bytes.
\<close>

definition readFunctionType :: "abi_Type \<Rightarrow> byte list \<Rightarrow> (coerce_error, go_value) outcome" where
  "readFunctionType t word =
     (if ty_T t \<noteq> FunctionTy then Error InvalidFunctionType
      else case slice word 24 32 of
             None \<Rightarrow> Panic
           | Some g \<Rightarrow>
               if setBytes g \<noteq> 0 then Error (ImproperFunctionType word)
               else Ok (GoByteArray (take 24 word)))"

text \<open>
  \<open>readFixedBytes\<close>: a fresh \<open>[Size]byte\<close> into which \<open>reflect.Copy\<close> copies as many bytes
  of the word as fit.
\<close>

definition readFixedBytes :: "abi_Type \<Rightarrow> byte list \<Rightarrow> (coerce_error, go_value) outcome" where
  "readFixedBytes t word =
     (if ty_T t \<noteq> FixedBytesTy then Error InvalidFixedBytesType
      else Ok (GoByteArray (take (nat (ty_Size t)) (word @ replicate (nat (ty_Size t)) 0))))"

text \<open>
  \<open>getFullElemSize\<close>: 32, multiplied by the sizes of the nested fixed arrays. The element
  pointer of a type is dereferenced without a nil check.
\<close>

fun getFullElemSize :: "abi_Type option \<Rightarrow> int option" where
  "getFullElemSize None = None"
| "getFullElemSize (Some (AbiType T k sz el s)) =
     (if T = ArrayTy then map_option (\<lambda>r. sz * r) (getFullElemSize el) else Some 32)"

text \<open>
  The fallback of \<open>coerceAbiParameter\<close> for \<open>uint256[]\<close>: every element of the
  \<open>[]interface{}\<close> must be a \<open>float64\<close>, the assertion is unchecked.
\<close>

fun uint256_fallback :: "go_value list \<Rightarrow> go_value list \<Rightarrow> go_value list option" where
  "uint256_fallback vals [] = Some vals"
| "uint256_fallback vals (GoFloat64 f # rest) = uint256_fallback (vals @ [GoBigIntOfFloat64 f]) rest"
| "uint256_fallback vals (_ # rest) = None"

text \<open>
  \<open>coerceAbiParameter\<close> and \<open>forEachUnpack\<close> of api/privacy/models.go, with the loop of
  \<open>forEachUnpack\<close> as \<open>forEachUnpack_loop\<close> (\<open>i\<close> and \<open>j\<close> are the loop variables,
  \<open>refSlice\<close> the elements stored so far, \<open>sz\<close> the parameter \<open>size\<close>). A type assertion \<open>v.(T)\<close> without the comma-ok
  form panics when \<open>v\<close> holds another type; in the \<open>[]byte\<close> case of the array branch the
  second argument asserts \<open>v.([]interface{})\<close>, which panics before \<open>forEachUnpack\<close> is
  entered. A \<open>switch\<close> case that ends without \<open>return\<close> leaves the \<open>switch\<close> and reaches the
  final \<open>return nil, fmt.Errorf(...)\<close>.
\<close>

function coerceAbiParameter :: "abi_Type \<Rightarrow> go_value \<Rightarrow> (coerce_error, go_value) outcome"
  and forEachUnpack :: "abi_Type \<Rightarrow> byte list \<Rightarrow> int \<Rightarrow> int \<Rightarrow> (coerce_error, go_value) outcome"
  and forEachUnpack_loop ::
    "abi_Type \<Rightarrow> byte list \<Rightarrow> int \<Rightarrow> int \<Rightarrow> int \<Rightarrow> int \<Rightarrow> go_value list
       \<Rightarrow> (coerce_error, go_value list) outcome"
where
  "coerceAbiParameter t v =
     (if ty_T t = ArrayTy \<or> ty_T t = SliceTy then
        (case v of
           GoBytes b \<Rightarrow> Panic
         | GoString s \<Rightarrow> forEachUnpack t (bytes_of_string s) 0 (int (length s))
         | _ \<Rightarrow>
             if ty_String t = ''uint256[]'' then
               (if ty_Size t < 0 then Panic
                else case v of
                       GoInterfaces vs \<Rightarrow>
                         (case uint256_fallback (replicate (nat (ty_Size t)) GoNil) vs of
                            None \<Rightarrow> Panic
                          | Some vals \<Rightarrow> Ok (GoBigInts vals))
                     | _ \<Rightarrow> Panic)
             else Error (UnhandledType t))
      else
        (case ty_T t of
           StringTy \<Rightarrow> (case v of GoBytes b \<Rightarrow> Ok (GoString (string_of_bytes b)) | _ \<Rightarrow> Panic)
         | IntTy \<Rightarrow>
             (if ty_Kind t \<in> {K_Uint, K_Uint8, K_Uint16, K_Uint32, K_Uint64} then
                (case v of GoInt64 x \<Rightarrow> Ok (GoBigInt (sint x)) | _ \<Rightarrow> Panic)
              else if ty_Kind t \<in> {K_Int, K_Int8, K_Int16, K_Int32, K_Int64} then
                (case v of GoInt64 x \<Rightarrow> Ok (GoBigInt (sint x)) | _ \<Rightarrow> Panic)
              else if ty_Kind t = K_Float64 then
                (case v of GoFloat64 f \<Rightarrow> Ok (GoBigIntOfFloat64 f) | _ \<Rightarrow> Panic)
              else if ty_Kind t = K_Ptr then
                (case v of GoFloat64 f \<Rightarrow> Ok (GoBigIntOfFloat64 f) | _ \<Rightarrow> Error (UnhandledType t))
              else
                (case v of GoBytes b \<Rightarrow> readInteger (ty_Kind t) b | _ \<Rightarrow> Panic))
         | UintTy \<Rightarrow>
             (if ty_Kind t \<in> {K_Uint, K_Uint8, K_Uint16, K_Uint32, K_Uint64} then
                (case v of GoInt64 x \<Rightarrow> Ok (GoBigInt (sint x)) | _ \<Rightarrow> Panic)
              else if ty_Kind t \<in> {K_Int, K_Int8, K_Int16, K_Int32, K_Int64} then
                (case v of GoInt64 x \<Rightarrow> Ok (GoBigInt (sint x)) | _ \<Rightarrow> Panic)
              else if ty_Kind t = K_Float64 then
                (case v of GoFloat64 f \<Rightarrow> Ok (GoBigIntOfFloat64 f) | _ \<Rightarrow> Panic)
              else if ty_Kind t = K_Ptr then
                (case v of GoFloat64 f \<Rightarrow> Ok (GoBigIntOfFloat64 f) | _ \<Rightarrow> Error (UnhandledType t))
              else
                (case v of GoBytes b \<Rightarrow> readInteger (ty_Kind t) b | _ \<Rightarrow> Panic))
         | BoolTy \<Rightarrow> (case v of GoBool b \<Rightarrow> Ok (GoBool b) | _ \<Rightarrow> Panic)
         | AddressTy \<Rightarrow>
             (case v of
                GoString s \<Rightarrow> Ok (GoHexToAddress s)
              | GoBytes b \<Rightarrow> Ok (GoBytesToAddress b)
              | _ \<Rightarrow> Panic)
         | HashTy \<Rightarrow> (case v of GoBytes b \<Rightarrow> Ok (GoBytesToHash b) | _ \<Rightarrow> Panic)
         | BytesTy \<Rightarrow> Ok v
         | FixedBytesTy \<Rightarrow>
             (case v of GoString s \<Rightarrow> readFixedBytes t (bytes_of_string s) | _ \<Rightarrow> Panic)
         | FunctionTy \<Rightarrow> (case v of GoBytes b \<Rightarrow> readFunctionType t b | _ \<Rightarrow> Panic)
         | _ \<Rightarrow> Error (UnhandledType t)))"
| "forEachUnpack t output start sz =
     (if sz < 0 then Error (NegativeSize sz)
      else if start + 32 * sz > int (length output)
        then Error (OverSliceBoundary (int (length output)) (start + 32 * sz))
      else if ty_T t \<noteq> SliceTy \<and> ty_T t \<noteq> ArrayTy then Error InvalidArrayType
      else
        (case (if ty_T t = ArrayTy then getFullElemSize (ty_Elem t) else Some 32) of
           None \<Rightarrow> Panic
         | Some elemSize \<Rightarrow>
             (case forEachUnpack_loop t output start 0 sz elemSize [] of
                Panic \<Rightarrow> Panic
              | Error e \<Rightarrow> Error e
              | Ok refSlice \<Rightarrow>
                  Ok (if ty_T t = SliceTy then GoReflectSlice t refSlice
                      else GoReflectArray t refSlice))))"
| "forEachUnpack_loop t output i j sz elemSize refSlice =
     (if j < sz then
        (case coerceAbiParameter t (GoBytes output) of
           Panic \<Rightarrow> Panic
         | Error e \<Rightarrow> Error e
         | Ok item \<Rightarrow>
             forEachUnpack_loop t output (i + elemSize) (j + 1) sz elemSize (refSlice @ [item]))
      else Ok refSlice)"
  by pat_completeness auto
termination
  by (relation "measure (\<lambda>x. case x of
          Inl (t, v) \<Rightarrow> (case v of GoString s \<Rightarrow> length s + 3 | _ \<Rightarrow> 0)
        | Inr (Inl (t, output, start, sz)) \<Rightarrow> nat sz + 2
        | Inr (Inr (t, output, i, j, sz, elemSize, refSlice)) \<Rightarrow> nat (sz - j) + 1)")
     auto

declare coerceAbiParameter.simps [simp del] forEachUnpack.simps [simp del]
  forEachUnpack_loop.simps [simp del]

section \<open>ABI encoding: \<open>EncodeABI\<close>\<close>

text \<open>
  \<open>abi.Argument\<close> and \<open>abi.Method\<close>. \<open>method_Id\<close> is the result of \<open>method.Id()\<close>, the
  four-byte selector.
\<close>

record abi_Argument =
  arg_Name :: string
  arg_Type :: abi_Type

record abi_Method =
  method_Name :: string
  method_Inputs :: "abi_Argument list"
  method_Id :: "byte list"

text \<open>
  \<open>abi.Arguments.Pack\<close> belongs to the go-ethereum library, not to this repository: it is a
  parameter \<open>pack\<close> of both encoders, which may return the packed bytes, return an error, or
  panic.
\<close>

type_synonym 'e packer = "abi_Argument list \<Rightarrow> go_value list \<Rightarrow> ('e, byte list) outcome"

text \<open>
  The loop of \<open>EncodeABI\<close> in ethereum.go: parameter \<open>i\<close> is appended unchanged unless
  \<open>i \<ge> len(method.Inputs)\<close>, where the loop breaks.
\<close>

fun EncodeABI_loop :: "abi_Argument list \<Rightarrow> go_value list \<Rightarrow> nat \<Rightarrow> go_value list \<Rightarrow> go_value list" where
  "EncodeABI_loop inputs [] i args = args"
| "EncodeABI_loop inputs (p # ps) i args =
     (if i \<ge> length inputs then args else EncodeABI_loop inputs ps (i + 1) (args @ [p]))"

text \<open>
  \<open>EncodeABI\<close> of ethereum.go. The deferred \<open>recover\<close> turns a panic of \<open>Pack\<close> into a normal
  return of the zero results: a nil byte slice (\<open>None\<close>) and a nil error.
\<close>

definition EncodeABI :: "'e packer \<Rightarrow> abi_Method \<Rightarrow> go_value list \<Rightarrow> ('e, byte list option) outcome" where
  "EncodeABI pack method params =
     (let args = EncodeABI_loop (method_Inputs method) params 0 []
      in case pack (method_Inputs method) args of
           Panic \<Rightarrow> Ok None
         | Error err \<Rightarrow> Error err
         | Ok encodedArgs \<Rightarrow> Ok (Some (method_Id method @ encodedArgs)))"

text \<open>
  The loop of \<open>EncodeABI\<close> in api/privacy/models.go: each parameter is coerced first. A
  coercion error is logged and the parameter is left out; a coerced string is turned into
  its bytes; \<open>reflect.TypeOf(param).Kind()\<close> panics on a nil \<open>param\<close>.
\<close>

fun EncodeABI_models_loop ::
  "abi_Argument list \<Rightarrow> go_value list \<Rightarrow> nat \<Rightarrow> go_value list \<Rightarrow> go_value list option" where
  "EncodeABI_models_loop inputs [] i args = Some args"
| "EncodeABI_models_loop inputs (p # ps) i args =
     (if i \<ge> length inputs then Some args
      else case coerceAbiParameter (arg_Type (inputs ! i)) p of
             Panic \<Rightarrow> None
           | Error err \<Rightarrow> EncodeABI_models_loop inputs ps (i + 1) args
           | Ok param \<Rightarrow>
               (case param of
                  GoNil \<Rightarrow> None
                | GoString s \<Rightarrow>
                    EncodeABI_models_loop inputs ps (i + 1) (args @ [GoBytes (bytes_of_string s)])
                | _ \<Rightarrow> EncodeABI_models_loop inputs ps (i + 1) (args @ [param])))"

text \<open>\<open>EncodeABI\<close> of api/privacy/models.go; it has no \<open>recover\<close>.\<close>

definition EncodeABI_models :: "'e packer \<Rightarrow> abi_Method \<Rightarrow> go_value list \<Rightarrow> ('e, byte list option) outcome" where
  "EncodeABI_models pack method params =
     (case EncodeABI_models_loop (method_Inputs method) params 0 [] of
        None \<Rightarrow> Panic
      | Some args \<Rightarrow>
          (case pack (method_Inputs method) args of
             Panic \<Rightarrow> Panic
           | Error err \<Rightarrow> Error err
           | Ok encodedArgs \<Rightarrow> Ok (Some (method_Id method @ encodedArgs))))"

text \<open>
  A packer for running the encoders on concrete inputs. It stands in for the library
  routine in the examples only: like the library routine it refuses an argument list whose
  length differs from the number of declared inputs; it writes one 32-byte word per
  argument.
\<close>

fun example_word :: "go_value \<Rightarrow> byte list" where
  "example_word (GoBool b) = replicate 31 0 @ [if b then 1 else 0]"
| "example_word v = replicate 32 0"

definition example_pack :: "string packer" where
  "example_pack inputs args =
     (if length args \<noteq> length inputs then Error ''argument count mismatch''
      else Ok (concat (map example_word args)))"

text \<open>Three argument types as \<open>abi.NewType\<close> builds them, for the examples.\<close>

definition bool_t :: abi_Type where
  "bool_t = AbiType BoolTy K_Other 0 None ''bool''"

definition uint256_t :: abi_Type where
  "uint256_t = AbiType UintTy K_Ptr 256 None ''uint256''"

definition address_t :: abi_Type where
  "address_t = AbiType AddressTy K_Other 20 None ''address''"

section \<open>Strings and numbers of the standard library\<close>

text \<open>
  Errors. An error that comes out of a library or of the node is kept as its message;
  the errors this package builds with \<open>fmt.Errorf\<close> and \<open>errors.New\<close> are told apart by
  constructor. \<open>error_message\<close> is the method \<open>Error()\<close>.
\<close>

datatype error =
    FromLibrary string
  | UnableToParseBlockNumber
  | UnableToDecodeBlockNumberHex string
  | UnableToDecodeBlockTimestampHex string
  | FailedToEstimateGas string
  | FailedReadPrivateKey string
  | FailedToSignTx string string

fun error_message :: "error \<Rightarrow> string" where
  "error_message (FromLibrary s) = s"
| "error_message UnableToParseBlockNumber = ''Unable to parse block number from JSON-RPC response''"
| "error_message (UnableToDecodeBlockNumberHex s) = ''Unable to decode block number hex; '' @ s"
| "error_message (UnableToDecodeBlockTimestampHex s) = ''Unable to decode block timestamp hex; '' @ s"
| "error_message (FailedToEstimateGas s) = ''Failed to estimate gas for tx; '' @ s"
| "error_message (FailedReadPrivateKey s) = ''Failed read private key bytes prior to signing tx; '' @ s"
| "error_message (FailedToSignTx to s) = ''Failed to sign tx on behalf of '' @ to @ ''; '' @ s"

text \<open>
  Modelled from the spec: the helper \<open>stringOrNil\<close> is declared outside the files at
  hand. The status it builds is specified to carry the state \<open>"configuring"\<close>, so a
  non-empty string is returned as a pointer to it; the empty string gives nil.
\<close>

definition stringOrNil :: "string \<Rightarrow> string option" where
  "stringOrNil str = (if str = [] then None else Some str)"

text \<open>Digits: the value of a decimal or hexadecimal digit character.\<close>

definition digit_value :: "char \<Rightarrow> nat option" where
  "digit_value c =
     (let k = (of_char c :: nat)
      in if 48 \<le> k \<and> k \<le> 57 then Some (k - 48)
         else if 97 \<le> k \<and> k \<le> 102 then Some (k - 87)
         else if 65 \<le> k \<and> k \<le> 70 then Some (k - 55)
         else None)"

datatype num_error = ErrSyntax | ErrRange

text \<open>
  \<open>strconv.ParseUint(s, base, 64)\<close> for base 10 and 16 (a bit size of 0 is the size of
  \<open>int\<close>, 64 bits): with the error it returns 0 on a syntax error and the largest value on
  a range error.
\<close>

fun ParseUint_loop :: "nat \<Rightarrow> nat \<Rightarrow> string \<Rightarrow> num_error \<times> 64 word + 64 word" where
  "ParseUint_loop base n [] = Inr (of_nat n)"
| "ParseUint_loop base n (c # cs) =
     (case digit_value c of
        None \<Rightarrow> Inl (ErrSyntax, 0)
      | Some d \<Rightarrow>
          if d \<ge> base then Inl (ErrSyntax, 0)
          else if n * base + d \<ge> 2 ^ 64 then Inl (ErrRange, - 1)
          else ParseUint_loop base (n * base + d) cs)"

definition ParseUint :: "string \<Rightarrow> nat \<Rightarrow> num_error \<times> 64 word + 64 word" where
  "ParseUint s base = (if s = [] then Inl (ErrSyntax, 0) else ParseUint_loop base 0 s)"

text \<open>
  \<open>hexutil.DecodeUint64\<close>: a \<open>0x\<close> prefix, at least one digit, no leading zero, at most
  64 bits.
\<close>

definition DecodeUint64 :: "string \<Rightarrow> string + 64 word" where
  "DecodeUint64 input =
     (if input = [] then Inl ''empty hex string''
      else if \<not> (length input \<ge> 2 \<and> input ! 0 = CHR ''0'' \<and> (input ! 1 = CHR ''x'' \<or> input ! 1 = CHR ''X''))
        then Inl ''hex string without 0x prefix''
      else let raw = drop 2 input
           in if raw = [] then Inl ''hex string \"0x\"''
              else if length raw > 1 \<and> raw ! 0 = CHR ''0'' then Inl ''hex number with leading zero digits''
              else case ParseUint raw 16 of
                     Inl (ErrSyntax, _) \<Rightarrow> Inl ''invalid hex string''
                   | Inl (ErrRange, _) \<Rightarrow> Inl ''hex number > 64 bits''
                   | Inr dec \<Rightarrow> Inr dec)"

text \<open>Hexadecimal output: \<open>hex.EncodeToString\<close> on bytes, \<open>hexutil.EncodeBig\<close> on integers.\<close>

definition hex_char :: "nat \<Rightarrow> char" where
  "hex_char k = ''0123456789abcdef'' ! (k mod 16)"

definition EncodeToString :: "byte list \<Rightarrow> string" where
  "EncodeToString bs = concat (map (\<lambda>b. [hex_char (unat b div 16), hex_char (unat b mod 16)]) bs)"

function hex_of_nat :: "nat \<Rightarrow> string" where
  "hex_of_nat k = (if k < 16 then [hex_char k] else hex_of_nat (k div 16) @ [hex_char (k mod 16)])"
  by pat_completeness auto
termination
  by (relation "measure id") auto

declare hex_of_nat.simps [simp del]

definition EncodeBig :: "int \<Rightarrow> string" where
  "EncodeBig k = (if k < 0 then ''-0x'' @ hex_of_nat (nat (- k)) else ''0x'' @ hex_of_nat (nat k))"

section \<open>The connection cache, the node and its trace\<close>

text \<open>
  A dialled \<open>*ethrpc.Client\<close> is known by the moment it was dialled; the
  \<open>*ethclient.Client\<close> made from it by \<open>ethclient.NewClient\<close> wraps it. A nil pointer is
  \<open>None\<close> of the option type.
\<close>

type_synonym rpc_client = nat

datatype eth_client = NewClient rpc_client

datatype json =
    JNull | JBool bool | JNumber int | JString string
  | JArray "json list" | JObject "(string \<times> json) list"

record SyncProgress =
  CurrentBlock :: "64 word"
  HighestBlock :: "64 word"

record CallMsg =
  msg_From :: string
  msg_To :: "string option"
  msg_Gas :: "64 word"
  msg_GasPrice :: int
  msg_Value :: "int option"
  msg_Data :: "string option"

text \<open>Every interaction with the network leaves an event in the trace.\<close>

datatype event =
    Dial string
  | Close_rpc rpc_client
  | Close_eth eth_client
  | Call_SyncProgress rpc_client
  | Call_NetworkID rpc_client
  | Call_PendingNonceAt rpc_client string
  | Call_SuggestGasPrice rpc_client
  | Call_EstimateGas rpc_client CallMsg
  | Post string string

text \<open>
  The node decides every reply. A reply may depend on the moment of the request (the
  number of events before it), so a node may fail at one moment and answer at another.
  \<open>dial_reply\<close> is the error of \<open>ethrpc.Dial\<close> (\<open>None\<close> when it connects); \<open>post_reply\<close>
  is what \<open>InvokeJsonRpcClient\<close> gets for a method: an error of the transport or of the
  decoding, or the \<open>Result\<close> field of the decoded response.
\<close>

record node =
  dial_reply :: "nat \<Rightarrow> string \<Rightarrow> string option"
  syncing_reply :: "nat \<Rightarrow> rpc_client \<Rightarrow> string + SyncProgress option"
  networkID_reply :: "nat \<Rightarrow> rpc_client \<Rightarrow> string + int"
  post_reply :: "nat \<Rightarrow> string \<Rightarrow> string \<Rightarrow> string + json"
  nonce_reply :: "nat \<Rightarrow> rpc_client \<Rightarrow> string \<Rightarrow> string + 64 word"
  gasPrice_reply :: "nat \<Rightarrow> rpc_client \<Rightarrow> string + int"
  estimateGas_reply :: "nat \<Rightarrow> rpc_client \<Rightarrow> CallMsg \<Rightarrow> string + 64 word"

text \<open>
  \<open>params.ChainConfig\<close>: the package reads and writes the chain id only. The one
  configuration object it ever touches is the library's global
  \<open>params.MainnetChainConfig\<close>, through pointers; \<open>Mainnet\<close> is that pointer, and the
  object it points to is a field of the state.
\<close>

record ChainConfig =
  cfg_ChainID :: int

datatype cfg_ptr = Mainnet

text \<open>
  The package-level variables, and the trace. A Go map read at a missing key gives the
  nil slice, so the two client maps are total functions into lists.
\<close>

record world =
  chainConfigs :: "string \<rightharpoonup> cfg_ptr"
  MainnetChainConfig :: ChainConfig
  ethclientRpcClients :: "string \<Rightarrow> eth_client list"
  ethrpcClients :: "string \<Rightarrow> rpc_client list"
  events :: "event list"

definition emit :: "event \<Rightarrow> world \<Rightarrow> world" where
  "emit e w = w\<lparr>events := events w @ [e]\<rparr>"

text \<open>The two files of the toolkit differ in how some functions resolve the client.\<close>

datatype source_file = Ethereum_go | Privacy_models_go

definition clearCachedClients :: "string \<Rightarrow> world \<Rightarrow> world" where
  "clearCachedClients networkID w =
     w\<lparr>chainConfigs := (chainConfigs w)(networkID := None),
       events := events w @ map Close_rpc (ethrpcClients w networkID)
                          @ map Close_eth (ethclientRpcClients w networkID),
       ethrpcClients := (ethrpcClients w)(networkID := []),
       ethclientRpcClients := (ethclientRpcClients w)(networkID := [])\<rparr>"

definition ResolveJsonRpcClient ::
  "node \<Rightarrow> string \<Rightarrow> string \<Rightarrow> world \<Rightarrow> (error, rpc_client) outcome \<times> world" where
  "ResolveJsonRpcClient n networkID rpcURL w =
     (let networkClients = ethrpcClients w networkID
      in if length networkClients = 0 then
           (let t = length (events w); w1 = emit (Dial rpcURL) w
            in case dial_reply n t rpcURL of
                 Some err \<Rightarrow> (Error (FromLibrary err), w1)
               | None \<Rightarrow>
                   (Ok t, w1\<lparr>ethrpcClients := (ethrpcClients w1)(networkID := networkClients @ [t])\<rparr>))
         else (Ok (hd (ethrpcClients w networkID)), w))"

text \<open>\<open>GetSyncProgress\<close>: the method call on a nil client dereferences it.\<close>

definition GetSyncProgress ::
  "node \<Rightarrow> eth_client option \<Rightarrow> world \<Rightarrow> (error, SyncProgress option) outcome \<times> world" where
  "GetSyncProgress n client w =
     (case client of
        None \<Rightarrow> (Panic, w)
      | Some (NewClient c) \<Rightarrow>
          (let t = length (events w); w1 = emit (Call_SyncProgress c) w
           in case syncing_reply n t c of
                Inl err \<Rightarrow> (Error (FromLibrary err), w1)
              | Inr progress \<Rightarrow> (Ok progress, w1)))"

definition DialJsonRpc ::
  "node \<Rightarrow> string \<Rightarrow> string \<Rightarrow> world \<Rightarrow> (error, eth_client) outcome \<times> world" where
  "DialJsonRpc n networkID rpcURL w =
     (let networkClients = ethclientRpcClients w networkID
      in case (if length networkClients = 0 then
                 (case ResolveJsonRpcClient n networkID rpcURL w of
                    (Panic, w1) \<Rightarrow> (Panic, w1)
                  | (Error err, w1) \<Rightarrow> (Error err, w1)
                  | (Ok rpcClient, w1) \<Rightarrow>
                      (let client = NewClient rpcClient
                       in (Ok client,
                           w1\<lparr>ethrpcClients :=
                                 (ethrpcClients w1)(networkID := ethrpcClients w1 networkID @ [rpcClient]),
                               ethclientRpcClients :=
                                 (ethclientRpcClients w1)(networkID := networkClients @ [client])\<rparr>)))
               else (Ok (hd (ethclientRpcClients w networkID)), w)) of
           (Panic, w2) \<Rightarrow> (Panic, w2)
         | (Error err, w2) \<Rightarrow> (Error err, w2)
         | (Ok client, w2) \<Rightarrow>
             (case GetSyncProgress n (Some client) w2 of
                (Panic, w3) \<Rightarrow> (Panic, w3)
              | (Error err, w3) \<Rightarrow> (Error err, clearCachedClients networkID w3)
              | (Ok progress, w3) \<Rightarrow> (Ok client, w3)))"

text \<open>
  \<open>ResolveEthClient\<close> of api/privacy/models.go. In the dialling branch
  \<open>client, err := DialJsonRpc(...)\<close> declares a new \<open>client\<close>; the variable that is
  returned is the outer one, still nil.
\<close>

definition ResolveEthClient ::
  "node \<Rightarrow> string \<Rightarrow> string \<Rightarrow> world \<Rightarrow> (error, eth_client option) outcome \<times> world" where
  "ResolveEthClient n networkID rpcURL w =
     (let networkClients = ethclientRpcClients w networkID
      in if length networkClients = 0 then
           (case DialJsonRpc n networkID rpcURL w of
              (Panic, w1) \<Rightarrow> (Panic, w1)
            | (Error err, w1) \<Rightarrow> (Error err, w1)
            | (Ok client, w1) \<Rightarrow>
                (Ok None,
                 w1\<lparr>ethclientRpcClients :=
                       (ethclientRpcClients w1)(networkID := networkClients @ [client])\<rparr>))
         else (Ok (Some (hd (ethclientRpcClients w networkID))), w))"

text \<open>
  The call that resolves the client in \<open>GetChainID\<close> and \<open>GetNetworkStatus\<close>:
  \<open>DialJsonRpc\<close> in ethereum.go, \<open>ResolveEthClient\<close> in api/privacy/models.go.
\<close>

definition resolve_client ::
  "source_file \<Rightarrow> node \<Rightarrow> string \<Rightarrow> string \<Rightarrow> world \<Rightarrow> (error, eth_client option) outcome \<times> world" where
  "resolve_client f n networkID rpcURL w =
     (case f of
        Ethereum_go \<Rightarrow>
          (case DialJsonRpc n networkID rpcURL w of
             (Panic, w1) \<Rightarrow> (Panic, w1)
           | (Error err, w1) \<Rightarrow> (Error err, w1)
           | (Ok client, w1) \<Rightarrow> (Ok (Some client), w1))
      | Privacy_models_go \<Rightarrow> ResolveEthClient n networkID rpcURL w)"

text \<open>\<open>GetChainID\<close>: nil on every failure.\<close>

definition GetChainID ::
  "source_file \<Rightarrow> node \<Rightarrow> string \<Rightarrow> string \<Rightarrow> world \<Rightarrow> (error, int option) outcome \<times> world" where
  "GetChainID f n networkID rpcURL w =
     (case resolve_client f n networkID rpcURL w of
        (Panic, w1) \<Rightarrow> (Panic, w1)
      | (Error err, w1) \<Rightarrow> (Ok None, w1)
      | (Ok None, w1) \<Rightarrow> (Ok None, w1)
      | (Ok (Some (NewClient c)), w1) \<Rightarrow>
          (let t = length (events w1); w2 = emit (Call_NetworkID c) w1
           in case networkID_reply n t c of
                Inl err \<Rightarrow> (Ok None, w2)
              | Inr chainID \<Rightarrow> (Ok (Some chainID), w2)))"

text \<open>
  \<open>InvokeJsonRpcClient\<close>: the payload's \<open>id\<close> is the result of \<open>GetChainID\<close>, then the
  request is posted. The result is the error, or the \<open>Result\<close> of the response.
\<close>

definition InvokeJsonRpcClient ::
  "source_file \<Rightarrow> node \<Rightarrow> string \<Rightarrow> string \<Rightarrow> string \<Rightarrow> world \<Rightarrow> (error, json) outcome \<times> world" where
  "InvokeJsonRpcClient f n networkID rpcURL method w =
     (case GetChainID f n networkID rpcURL w of
        (Panic, w1) \<Rightarrow> (Panic, w1)
      | (Error err, w1) \<Rightarrow> (Error err, w1)
      | (Ok chainID, w1) \<Rightarrow>
          (let t = length (events w1); w2 = emit (Post rpcURL method) w1
           in case post_reply n t rpcURL method of
                Inl err \<Rightarrow> (Error (FromLibrary err), w2)
              | Inr result \<Rightarrow> (Ok result, w2)))"

text \<open>
  \<open>GetPeerCount\<close>. After the second invocation the warning is formatted with
  \<open>err.Error()\<close> of the inner \<open>err\<close>: a nil interface when that invocation succeeded.
\<close>

definition GetPeerCount ::
  "source_file \<Rightarrow> node \<Rightarrow> string \<Rightarrow> string \<Rightarrow> world \<Rightarrow> (error, 64 word) outcome \<times> world" where
  "GetPeerCount f n networkID rpcURL w =
     (case InvokeJsonRpcClient f n networkID rpcURL ''net_peerCount'' w of
        (Panic, w1) \<Rightarrow> (Panic, w1)
      | (Error err, w1) \<Rightarrow>
          (case InvokeJsonRpcClient f n networkID rpcURL ''parity_netPeers'' w1 of
             (Panic, w2) \<Rightarrow> (Panic, w2)
           | (Error err2, w2) \<Rightarrow> (Ok 0, w2)
           | (Ok result, w2) \<Rightarrow> (Panic, w2))
      | (Ok result, w1) \<Rightarrow>
          (case result of
             JString peerCountStr \<Rightarrow>
               (case DecodeUint64 peerCountStr of
                  Inl err \<Rightarrow> (Ok 0, w1)
                | Inr peerCount \<Rightarrow> (Ok peerCount, w1))
           | _ \<Rightarrow> (Ok 0, w1)))"

text \<open>\<open>GetProtocolVersion\<close>, with the same warning and an unchecked \<open>resp.Result.(string)\<close>.\<close>

definition GetProtocolVersion ::
  "source_file \<Rightarrow> node \<Rightarrow> string \<Rightarrow> string \<Rightarrow> world \<Rightarrow> (error, string option) outcome \<times> world" where
  "GetProtocolVersion f n networkID rpcURL w =
     (case InvokeJsonRpcClient f n networkID rpcURL ''eth_protocolVersion'' w of
        (Panic, w1) \<Rightarrow> (Panic, w1)
      | (Error err, w1) \<Rightarrow>
          (case InvokeJsonRpcClient f n networkID rpcURL ''net_version'' w1 of
             (Panic, w2) \<Rightarrow> (Panic, w2)
           | (Error err2, w2) \<Rightarrow> (Ok None, w2)
           | (Ok result, w2) \<Rightarrow> (Panic, w2))
      | (Ok result, w1) \<Rightarrow>
          (case result of
             JString s \<Rightarrow> (Ok (stringOrNil s), w1)
           | _ \<Rightarrow> (Panic, w1)))"

definition GetLatestBlock ::
  "source_file \<Rightarrow> node \<Rightarrow> string \<Rightarrow> string \<Rightarrow> world \<Rightarrow> (error, json) outcome \<times> world" where
  "GetLatestBlock f n networkID rpcURL w =
     InvokeJsonRpcClient f n networkID rpcURL ''eth_getBlockByNumber'' w"

text \<open>
  \<open>GetLatestBlockNumber\<close>: the assertion of the result to a map is unchecked, the one of
  the number to a string is checked.
\<close>

definition GetLatestBlockNumber ::
  "source_file \<Rightarrow> node \<Rightarrow> string \<Rightarrow> string \<Rightarrow> world \<Rightarrow> (error, 64 word) outcome \<times> world" where
  "GetLatestBlockNumber f n networkID rpcURL w =
     (case GetLatestBlock f n networkID rpcURL w of
        (Panic, w1) \<Rightarrow> (Panic, w1)
      | (Error err, w1) \<Rightarrow> (Error err, w1)
      | (Ok result, w1) \<Rightarrow>
          (case result of
             JObject hdr \<Rightarrow>
               (case map_of hdr ''number'' of
                  Some (JString blockNumberStr) \<Rightarrow>
                    (case DecodeUint64 blockNumberStr of
                       Inl err \<Rightarrow> (Error (UnableToDecodeBlockNumberHex err), w1)
                     | Inr blockNumber \<Rightarrow> (Ok blockNumber, w1))
                | _ \<Rightarrow> (Error UnableToParseBlockNumber, w1))
           | _ \<Rightarrow> (Panic, w1)))"

text \<open>
  \<open>GetChainConfig\<close>. \<open>cfg\<close> is the pointer to the library's global object, so the
  assignment to \<open>cfg.ChainID\<close> writes into that object. The branch that assigns and
  caches is the one taken when \<open>strconv.ParseUint\<close> returned an error.
\<close>

definition GetChainConfig :: "string \<Rightarrow> string \<Rightarrow> world \<Rightarrow> cfg_ptr \<times> world" where
  "GetChainConfig networkID rpcURL w =
     (case chainConfigs w networkID of
        Some cfg \<Rightarrow> (cfg, w)
      | None \<Rightarrow>
          (let cfg = Mainnet
           in case ParseUint networkID 10 of
                Inl (err, chainID) \<Rightarrow>
                  (cfg, w\<lparr>MainnetChainConfig := (MainnetChainConfig w)\<lparr>cfg_ChainID := sint chainID\<rparr>,
                          chainConfigs := (chainConfigs w)(networkID \<mapsto> cfg)\<rparr>)
              | Inr chainID \<Rightarrow> (cfg, w)))"

text \<open>Reading a configuration through its pointer.\<close>

definition deref :: "world \<Rightarrow> cfg_ptr \<Rightarrow> ChainConfig" where
  "deref w p = (case p of Mainnet \<Rightarrow> MainnetChainConfig w)"

section \<open>Network status\<close>

record NetworkStatus =
  status_Block :: "64 word"
  status_Height :: "64 word option"
  status_ChainID :: "string option"
  status_PeerCount :: "64 word"
  status_LastBlockAt :: "64 word option"
  status_ProtocolVersion :: "string option"
  status_State :: "string option"
  status_Syncing :: bool
  status_Meta :: "string \<rightharpoonup> json"

text \<open>
  The return statement at the end of \<open>GetNetworkStatus\<close>: \<open>hexutil.EncodeBig\<close> reads its
  argument, a nil chain id is dereferenced.
\<close>

definition final_status ::
  "int option \<Rightarrow> 64 word \<Rightarrow> string option \<Rightarrow> string \<Rightarrow> 64 word \<Rightarrow> 64 word option \<Rightarrow>
   64 word option \<Rightarrow> bool \<Rightarrow> (string \<rightharpoonup> json) \<Rightarrow> (error, NetworkStatus option) outcome" where
  "final_status chainID peers protocolVersion state block height lastBlockAt syncing meta =
     (case chainID of
        None \<Rightarrow> Panic
      | Some k \<Rightarrow>
          Ok (Some \<lparr>status_Block = block, status_Height = height,
                    status_ChainID = stringOrNil (EncodeBig k), status_PeerCount = peers,
                    status_LastBlockAt = lastBlockAt, status_ProtocolVersion = protocolVersion,
                    status_State = stringOrNil state, status_Syncing = syncing,
                    status_Meta = meta\<rparr>))"

text \<open>
  \<open>GetNetworkStatus\<close> from the \<open>defer\<close> statement on. The assertions on the latest block
  (\<open>resp.Result.(map[string]interface{})\<close>, \<open>hdr["number"].(string)\<close>,
  \<open>hdr["timestamp"].(string)\<close>) are unchecked.
\<close>

definition GetNetworkStatus_body ::
  "source_file \<Rightarrow> node \<Rightarrow> string \<Rightarrow> string \<Rightarrow> eth_client option \<Rightarrow> world
     \<Rightarrow> (error, NetworkStatus option) outcome \<times> world" where
  "GetNetworkStatus_body f n networkID rpcURL ethClient w =
     (case GetSyncProgress n ethClient w of
        (Panic, w2) \<Rightarrow> (Panic, w2)
      | (Error err, w2) \<Rightarrow> (Error err, clearCachedClients networkID w2)
      | (Ok syncProgress, w2) \<Rightarrow>
     (case GetChainID f n networkID rpcURL w2 of
        (Panic, w3) \<Rightarrow> (Panic, w3)
      | (Error err, w3) \<Rightarrow> (Error err, w3)
      | (Ok chainID, w3) \<Rightarrow>
     (case GetPeerCount f n networkID rpcURL w3 of
        (Panic, w4) \<Rightarrow> (Panic, w4)
      | (Error err, w4) \<Rightarrow> (Error err, w4)
      | (Ok peers, w4) \<Rightarrow>
     (case GetProtocolVersion f n networkID rpcURL w4 of
        (Panic, w5) \<Rightarrow> (Panic, w5)
      | (Error err, w5) \<Rightarrow> (Error err, w5)
      | (Ok protocolVersion, w5) \<Rightarrow>
     (case syncProgress of
        None \<Rightarrow>
          (case GetLatestBlock f n networkID rpcURL w5 of
             (Panic, w6) \<Rightarrow> (Panic, w6)
           | (Error err, w6) \<Rightarrow> (Error err, w6)
           | (Ok result, w6) \<Rightarrow>
               (case result of
                  JObject hdr0 \<Rightarrow>
                    (let hdr = filter (\<lambda>kv. fst kv \<noteq> ''transactions'' \<and> fst kv \<noteq> ''uncles'') hdr0;
                         meta = [''last_block_header'' \<mapsto> JObject hdr]
                     in case map_of hdr ''number'' of
                          Some (JString numberStr) \<Rightarrow>
                            (case DecodeUint64 numberStr of
                               Inl err \<Rightarrow> (Error (UnableToDecodeBlockNumberHex err), w6)
                             | Inr block \<Rightarrow>
                                 (case map_of hdr ''timestamp'' of
                                    Some (JString timestampStr) \<Rightarrow>
                                      (case DecodeUint64 timestampStr of
                                         Inl err \<Rightarrow> (Error (UnableToDecodeBlockTimestampHex err), w6)
                                       | Inr lastBlockAt \<Rightarrow>
                                           (final_status chainID peers protocolVersion ''synced''
                                              block None (Some lastBlockAt) False meta, w6))
                                  | _ \<Rightarrow> (Panic, w6)))
                        | _ \<Rightarrow> (Panic, w6))
                | _ \<Rightarrow> (Panic, w6)))
      | Some progress \<Rightarrow>
          (final_status chainID peers protocolVersion [] (CurrentBlock progress)
             (Some (HighestBlock progress)) None True Map.empty, w5))))))"

text \<open>The degraded status of the first branch of \<open>GetNetworkStatus\<close>.\<close>

definition configuring_status :: "json \<Rightarrow> NetworkStatus" where
  "configuring_status message =
     \<lparr>status_Block = 0, status_Height = None, status_ChainID = None, status_PeerCount = 0,
      status_LastBlockAt = None, status_ProtocolVersion = None,
      status_State = stringOrNil ''configuring'', status_Syncing = False,
      status_Meta = [''error'' \<mapsto> message]\<rparr>"

text \<open>
  \<open>GetNetworkStatus\<close>. The deferred function recovers a panic of the part after it,
  clears the cache and lets the function return its zero results, nil and nil.
\<close>

definition GetNetworkStatus ::
  "source_file \<Rightarrow> node \<Rightarrow> string \<Rightarrow> string \<Rightarrow> world
     \<Rightarrow> (error, NetworkStatus option) outcome \<times> world" where
  "GetNetworkStatus f n networkID rpcURL w =
     (case resolve_client f n networkID rpcURL w of
        (Panic, w1) \<Rightarrow> (Panic, w1)
      | (Error err, w1) \<Rightarrow>
          (Ok (Some (configuring_status (JString (error_message err)))), w1)
      | (Ok ethClient, w1) \<Rightarrow>
          if rpcURL = [] then
            (Ok (Some (configuring_status
                   (JString ''No 'full-node' JSON-RPC URL configured or resolvable''))), w1)
          else if ethClient = None then
            (Ok (Some (configuring_status
                   (JString ''Configured 'full-node' JSON-RPC client not resolved''))), w1)
          else
            (case GetNetworkStatus_body f n networkID rpcURL ethClient w1 of
               (Panic, w2) \<Rightarrow> (Ok None, clearCachedClients networkID w2)
             | (Error err, w2) \<Rightarrow> (Error err, w2)
             | (Ok status, w2) \<Rightarrow> (Ok status, w2)))"

section \<open>Signing a transaction\<close>

text \<open>
  A transaction as \<open>types.NewTransaction\<close> and \<open>types.NewContractCreation\<close> build it
  (\<open>tx_To = None\<close> is a contract creation). Addresses and payloads are kept as the hex
  strings that \<open>common.HexToAddress\<close> and \<open>common.FromHex\<close> are applied to.
\<close>

record Transaction =
  tx_Nonce :: "64 word"
  tx_To :: "string option"
  tx_Value :: "int option"
  tx_GasLimit :: "64 word"
  tx_GasPrice :: "int option"
  tx_Data :: "string option"

text \<open>
  The cryptography of go-ethereum is a parameter: parsing the key
  (\<open>ethcrypto.HexToECDSA\<close>), the signing hash of the signer made by \<open>types.MakeSigner\<close> for
  a configuration and a block number, \<open>ethcrypto.Sign\<close>, \<open>tx.WithSignature\<close> (nil when it
  fails) and the hash of the signed transaction.
\<close>

record ('k, 's) signing =
  HexToECDSA :: "string \<Rightarrow> string + 'k"
  signer_Hash :: "ChainConfig \<Rightarrow> int \<Rightarrow> Transaction \<Rightarrow> byte list"
  Sign :: "byte list \<Rightarrow> 'k \<Rightarrow> string + byte list"
  WithSignature :: "ChainConfig \<Rightarrow> int \<Rightarrow> Transaction \<Rightarrow> byte list \<Rightarrow> 's option"
  signed_Hash :: "'s \<Rightarrow> byte list"

definition asCallMsg ::
  "string \<Rightarrow> string option \<Rightarrow> string option \<Rightarrow> int option \<Rightarrow> 64 word \<Rightarrow> 64 word \<Rightarrow> CallMsg" where
  "asCallMsg from data to val gasPrice gasLimit =
     \<lparr>msg_From = from, msg_To = to, msg_Gas = gasLimit, msg_GasPrice = sint gasPrice,
      msg_Value = val, msg_Data = data\<rparr>"

text \<open>
  The end of both versions of \<open>SignTx\<close>: make the signer, hash, parse the private key,
  sign. When signing fails the message is formatted with \<open>*to\<close>, a nil pointer for a
  contract creation.
\<close>

definition sign_transaction ::
  "('k, 's) signing \<Rightarrow> ChainConfig \<Rightarrow> 64 word \<Rightarrow> string \<Rightarrow> string option \<Rightarrow> Transaction
     \<Rightarrow> (error, 's \<times> string option) outcome" where
  "sign_transaction lib cfg blockNumber privateKey to tx =
     (let hash = signer_Hash lib cfg (sint blockNumber) tx
      in case HexToECDSA lib privateKey of
           Inl err \<Rightarrow> Error (FailedReadPrivateKey err)
         | Inr key \<Rightarrow>
             (case Sign lib hash key of
                Inl err \<Rightarrow>
                  (case to of None \<Rightarrow> Panic | Some t \<Rightarrow> Error (FailedToSignTx t err))
              | Inr sig \<Rightarrow>
                  (case WithSignature lib cfg (sint blockNumber) tx sig of
                     None \<Rightarrow> Panic
                   | Some signedTx \<Rightarrow>
                       Ok (signedTx, stringOrNil (''0x'' @ EncodeToString (signed_Hash lib signedTx))))))"

text \<open>
  \<open>SignTx\<close> of ethereum.go. \<open>gasPrice\<close> is nil when \<open>SuggestGasPrice\<close> failed, and
  \<open>gasPrice.Uint64()\<close> dereferences it.
\<close>

definition SignTx ::
  "('k, 's) signing \<Rightarrow> node \<Rightarrow> string \<Rightarrow> string \<Rightarrow> string \<Rightarrow> string \<Rightarrow> string option \<Rightarrow>
   string option \<Rightarrow> int option \<Rightarrow> 64 word \<Rightarrow> world \<Rightarrow> (error, 's \<times> string option) outcome \<times> world" where
  "SignTx lib n networkID rpcURL from privateKey to data val gasLimit w =
     (case DialJsonRpc n networkID rpcURL w of
        (Panic, w1) \<Rightarrow> (Panic, w1)
      | (Error err, w1) \<Rightarrow> (Error err, w1)
      | (Ok (NewClient c), w1) \<Rightarrow>
     (case GetSyncProgress n (Some (NewClient c)) w1 of
        (Panic, w2) \<Rightarrow> (Panic, w2)
      | (Error err, w2) \<Rightarrow> (Error err, w2)
      | (Ok progress, w2) \<Rightarrow>
     (case GetChainConfig networkID rpcURL w2 of (cfg, w3) \<Rightarrow>
     (case GetLatestBlockNumber Ethereum_go n networkID rpcURL w3 of
        (Panic, w4) \<Rightarrow> (Panic, w4)
      | (Error err, w4) \<Rightarrow> (Error err, w4)
      | (Ok blockNumber, w4) \<Rightarrow>
     (let w5 = emit (Call_PendingNonceAt c from) w4
      in case nonce_reply n (length (events w4)) c from of
           Inl err \<Rightarrow> (Error (FromLibrary err), w5)
         | Inr nonce \<Rightarrow>
     (let w6 = emit (Call_SuggestGasPrice c) w5;
          gasPrice = (case gasPrice_reply n (length (events w5)) c of
                        Inl err \<Rightarrow> None | Inr price \<Rightarrow> Some price)
      in case (if gasLimit = 0 then
                 (case gasPrice of
                    None \<Rightarrow> (Panic, w6)
                  | Some price \<Rightarrow>
                      (let callMsg = asCallMsg from data to val (word_of_int price) gasLimit;
                           w7 = emit (Call_EstimateGas c callMsg) w6
                       in case estimateGas_reply n (length (events w6)) c callMsg of
                            Inl err \<Rightarrow> (Error (FromLibrary err), w7)
                          | Inr estimate \<Rightarrow> (Ok estimate, w7)))
               else (Ok gasLimit, w6)) of
           (Panic, w7) \<Rightarrow> (Panic, w7)
         | (Error err, w7) \<Rightarrow> (Error (FailedToEstimateGas (error_message err)), w7)
         | (Ok gas, w7) \<Rightarrow>
             (sign_transaction lib (deref w7 cfg) blockNumber privateKey to
                \<lparr>tx_Nonce = nonce, tx_To = to, tx_Value = val, tx_GasLimit = gas,
                 tx_GasPrice = gasPrice, tx_Data = data\<rparr>, w7)))))))"

text \<open>
  \<open>SignTx\<close> of api/privacy/models.go: the client comes from \<open>ResolveEthClient\<close> and may be
  nil, there is no gas limit parameter and the gas is always estimated.
\<close>

definition SignTx_models ::
  "('k, 's) signing \<Rightarrow> node \<Rightarrow> string \<Rightarrow> string \<Rightarrow> string \<Rightarrow> string \<Rightarrow> string option \<Rightarrow>
   string option \<Rightarrow> int option \<Rightarrow> world \<Rightarrow> (error, 's \<times> string option) outcome \<times> world" where
  "SignTx_models lib n networkID rpcURL from privateKey to data val w =
     (case ResolveEthClient n networkID rpcURL w of
        (Panic, w1) \<Rightarrow> (Panic, w1)
      | (Error err, w1) \<Rightarrow> (Error err, w1)
      | (Ok client, w1) \<Rightarrow>
     (case GetSyncProgress n client w1 of
        (Panic, w2) \<Rightarrow> (Panic, w2)
      | (Error err, w2) \<Rightarrow> (Error err, w2)
      | (Ok progress, w2) \<Rightarrow>
     (case client of
        None \<Rightarrow> (Panic, w2)
      | Some (NewClient c) \<Rightarrow>
     (case GetChainConfig networkID rpcURL w2 of (cfg, w3) \<Rightarrow>
     (case GetLatestBlockNumber Privacy_models_go n networkID rpcURL w3 of
        (Panic, w4) \<Rightarrow> (Panic, w4)
      | (Error err, w4) \<Rightarrow> (Error err, w4)
      | (Ok blockNumber, w4) \<Rightarrow>
     (let w5 = emit (Call_PendingNonceAt c from) w4
      in case nonce_reply n (length (events w4)) c from of
           Inl err \<Rightarrow> (Error (FromLibrary err), w5)
         | Inr nonce \<Rightarrow>
     (let w6 = emit (Call_SuggestGasPrice c) w5
      in case gasPrice_reply n (length (events w5)) c of
           Inl err \<Rightarrow> (Panic, w6)
         | Inr price \<Rightarrow>
             (let callMsg = asCallMsg from data to val (word_of_int price) 0;
                  w7 = emit (Call_EstimateGas c callMsg) w6
              in case estimateGas_reply n (length (events w6)) c callMsg of
                   Inl err \<Rightarrow> (Error (FailedToEstimateGas err), w7)
                 | Inr gas \<Rightarrow>
                     (sign_transaction lib (deref w7 cfg) blockNumber privateKey to
                        \<lparr>tx_Nonce = nonce, tx_To = to, tx_Value = val, tx_GasLimit = gas,
                         tx_GasPrice = Some price, tx_Data = data\<rparr>, w7)))))))))"

section \<open>Keystore export\<close>

text \<open>
  The primitives of the keystore are parameters: \<open>scrypt.Key\<close>, the key stream of AES in
  counter mode for a key and an initialisation vector (byte \<open>i\<close> of the stream), and
  \<open>ethcrypto.Keccak256\<close> of the concatenated arguments. The random source is a parameter
  too: \<open>rand k len\<close> is the outcome of the \<open>k\<close>-th read, of \<open>len\<close> bytes.
\<close>

record crypto =
  scrypt_Key :: "byte list \<Rightarrow> byte list \<Rightarrow> nat \<Rightarrow> nat \<Rightarrow> nat \<Rightarrow> nat \<Rightarrow> string + byte list"
  aes_ctr_stream :: "byte list \<Rightarrow> byte list \<Rightarrow> nat \<Rightarrow> byte"
  Keccak256 :: "byte list \<Rightarrow> byte list"

type_synonym random = "nat \<Rightarrow> nat \<Rightarrow> string + byte list"

text \<open>A buffer made by \<open>make([]byte, len)\<close> and filled by a read.\<close>

definition filled :: "nat \<Rightarrow> byte list \<Rightarrow> byte list" where
  "filled len bs = take len (bs @ replicate len 0)"

text \<open>
  \<open>aesCTRXOR\<close>: \<open>aes.NewCipher\<close> accepts keys of 16, 24 or 32 bytes, \<open>cipher.NewCTR\<close>
  panics unless the vector has the block size, 16, and \<open>XORKeyStream\<close> combines byte
  \<open>i\<close> of the text with byte \<open>i\<close> of the key stream.
\<close>

definition aesCTRXOR :: "crypto \<Rightarrow> byte list \<Rightarrow> byte list \<Rightarrow> byte list \<Rightarrow> (error, byte list) outcome" where
  "aesCTRXOR lib key inText iv =
     (if length key \<notin> {16, 24, 32} then Error (FromLibrary ''crypto/aes: invalid key size'')
      else if length iv \<noteq> 16 then Panic
      else Ok (map (\<lambda>i. inText ! i XOR aes_ctr_stream lib key iv i) [0..<length inText]))"

text \<open>
  \<open>generateKeyUUID\<close>, given the outcome of its read. The caller drops the error, so a
  failed read gives the empty identifier.
\<close>

definition generateKeyUUID :: "string + byte list \<Rightarrow> string \<times> string option" where
  "generateKeyUUID read =
     (case read of
        Inl err \<Rightarrow> ([], Some err)
      | Inr bs \<Rightarrow>
          (let u0 = filled 16 bs;
               u1 = u0[6 := (u0 ! 6 AND 0x0f) OR 0x40];
               u = u1[8 := (u1 ! 8 AND 0x3f) OR 0x80]
           in (EncodeToString (take 4 u) @ ''-'' @ EncodeToString (take 2 (drop 4 u)) @ ''-''
               @ EncodeToString (take 2 (drop 6 u)) @ ''-'' @ EncodeToString (take 2 (drop 8 u))
               @ ''-'' @ EncodeToString (drop 10 u), None)))"

text \<open>
  \<open>MarshalEncryptedKey\<close>. \<open>keyBytes\<close> is \<open>ethcrypto.FromECDSA(privateKey)\<close> and \<open>addr\<close> the
  twenty bytes of the address. The result is the document that \<open>json.Marshal\<close> writes:
  the fields of a struct in the order of their declaration under the names of their tags,
  the keys of the \<open>kdfparams\<close> map in sorted order.
\<close>

definition MarshalEncryptedKey ::
  "crypto \<Rightarrow> random \<Rightarrow> byte list \<Rightarrow> byte list \<Rightarrow> string \<Rightarrow> (error, json) outcome" where
  "MarshalEncryptedKey lib rand addr keyBytes secret =
     (let LightScryptN = 2 ^ 12; LightScryptP = 6; scryptR = 4; scryptDKLen = 32
      in case rand 0 32 of
           Inl err \<Rightarrow> Error (FromLibrary err)
         | Inr saltRead \<Rightarrow>
      (let salt = filled 32 saltRead
       in case scrypt_Key lib (bytes_of_string secret) salt LightScryptN scryptR LightScryptP scryptDKLen of
            Inl err \<Rightarrow> Error (FromLibrary err)
          | Inr derivedKey \<Rightarrow>
      (case slice derivedKey 0 16 of
         None \<Rightarrow> Panic
       | Some encryptKey \<Rightarrow>
      (case rand 1 16 of
         Inl err \<Rightarrow> Error (FromLibrary err)
       | Inr ivRead \<Rightarrow>
      (let iv = filled 16 ivRead
       in case aesCTRXOR lib encryptKey keyBytes iv of
            Panic \<Rightarrow> Panic
          | Error err \<Rightarrow> Error err
          | Ok cipherText \<Rightarrow>
      (case slice derivedKey 16 32 of
         None \<Rightarrow> Panic
       | Some macKey \<Rightarrow>
      (let mac = Keccak256 lib (macKey @ cipherText);
           keyUUID = fst (generateKeyUUID (rand 2 16))
       in Ok (JObject
            [(''id'', JString keyUUID),
             (''address'', JString (EncodeToString addr)),
             (''crypto'', JObject
                [(''cipher'', JString ''aes-128-ctr''),
                 (''ciphertext'', JString (EncodeToString cipherText)),
                 (''cipherparams'', JObject [(''iv'', JString (EncodeToString iv))]),
                 (''kdf'', JString ''scrypt''),
                 (''kdfparams'', JObject
                    [(''dklen'', JNumber (int scryptDKLen)),
                     (''n'', JNumber (int LightScryptN)),
                     (''p'', JNumber (int LightScryptP)),
                     (''r'', JNumber (int scryptR)),
                     (''salt'', JString (EncodeToString salt))]),
                 (''mac'', JString (EncodeToString mac))]),
             (''version'', JNumber 3)]))))))))"

section \<open>A starting state and nodes for concrete runs\<close>

text \<open>
  The state at program start: empty caches, and the library's mainnet configuration with
  chain id 1.
\<close>

definition initial_world :: world where
  "initial_world =
     \<lparr>chainConfigs = Map.empty,
      MainnetChainConfig = \<lparr>cfg_ChainID = 1\<rparr>,
      ethclientRpcClients = (\<lambda>networkID. []),
      ethrpcClients = (\<lambda>networkID. []),
      events = []\<rparr>"

text \<open>
  A synced node with chain id 1 that answers every request; its latest block is number
  42. It does not serve \<open>net_peerCount\<close> (the reply cannot be decoded) and answers
  \<open>parity_netPeers\<close> with five peers.
\<close>

definition example_node :: node where
  "example_node =
     \<lparr>dial_reply = (\<lambda>t url. None),
      syncing_reply = (\<lambda>t c. Inr None),
      networkID_reply = (\<lambda>t c. Inr 1),
      post_reply = (\<lambda>t url m.
         if m = ''net_peerCount'' then Inl ''invalid character in response''
         else if m = ''parity_netPeers'' then Inr (JString ''0x5'')
         else if m = ''eth_getBlockByNumber''
           then Inr (JObject [(''number'', JString ''0x2a''), (''timestamp'', JString ''0x5d'')])
         else Inr JNull),
      nonce_reply = (\<lambda>t c a. Inr 7),
      gasPrice_reply = (\<lambda>t c. Inr 1000000000),
      estimateGas_reply = (\<lambda>t c msg. Inr 21000)\<rparr>"

text \<open>A node that cannot be reached: every dial fails.\<close>

definition unreachable_node :: node where
  "unreachable_node = example_node\<lparr>dial_reply := (\<lambda>t url. Some ''connection refused'')\<rparr>"

text \<open>
  A signing library for concrete runs. It stands in for the cryptography in the examples
  only: a key is accepted when it is 64 hexadecimal digits, the hash and the signature are
  fixed bytes, and a signed transaction is the pair of the transaction and its signature.
\<close>

definition example_signing :: "(string, Transaction \<times> byte list) signing" where
  "example_signing =
     \<lparr>HexToECDSA = (\<lambda>s. if length s = 64 \<and> list_all (\<lambda>c. digit_value c \<noteq> None) s
                          then Inr s else Inl ''invalid hex string''),
      signer_Hash = (\<lambda>cfg blockNumber tx. replicate 32 1),
      Sign = (\<lambda>hash key. Inr (replicate 65 2)),
      WithSignature = (\<lambda>cfg blockNumber tx sig. Some (tx, sig)),
      signed_Hash = (\<lambda>signedTx. replicate 32 3)\<rparr>"

text \<open>
  Primitives and a random source for a concrete export. They stand in for the
  cryptography in the example only: the derived key is 32 fixed bytes, the key stream is
  constant, the hash is the first 32 bytes of its input, and read \<open>k\<close> gives bytes of value
  \<open>k + 1\<close>.
\<close>

definition example_crypto :: crypto where
  "example_crypto =
     \<lparr>scrypt_Key = (\<lambda>password salt N r p dklen. Inr (replicate 16 7 @ replicate 16 8)),
      aes_ctr_stream = (\<lambda>key iv i. 255),
      Keccak256 = (\<lambda>bs. filled 32 bs)\<rparr>"

definition example_random :: random where
  "example_random k len = Inr (replicate len (of_nat (k + 1)))"

text \<open>The same node with every method served.\<close>

definition serving_node :: node where
  "serving_node =
     example_node\<lparr>post_reply := (\<lambda>t url m.
        if m = ''net_peerCount'' then Inr (JString ''0x5'')
        else if m = ''eth_protocolVersion'' then Inr (JString ''0x3f'')
        else if m = ''eth_getBlockByNumber''
          then Inr (JObject [(''number'', JString ''0x2a''), (''timestamp'', JString ''0x5d''),
                             (''transactions'', JArray [])])
        else Inr JNull)\<rparr>"

text \<open>The first node with a gas price request that fails.\<close>

definition no_gas_price_node :: node where
  "no_gas_price_node = example_node\<lparr>gasPrice_reply := (\<lambda>t c. Inl ''gas price unavailable'')\<rparr>"

section \<open>Properties of the length-prefix decoder\<close>

lemma setBytes_foldl_nonneg:
  "0 \<le> a \<Longrightarrow> 0 \<le> foldl (\<lambda>acc b. acc * 256 + uint (b :: byte)) a bs"
  by (induction bs arbitrary: a) simp_all

lemma setBytes_nonneg: "0 \<le> setBytes bs"
  by (simp add: setBytes_def setBytes_foldl_nonneg)

lemma BitLen_le_63: "0 \<le> x \<Longrightarrow> \<not> BitLen x > 63 \<Longrightarrow> x < 2 ^ 63"
proof -
  assume nn: "0 \<le> x" and b: "\<not> BitLen x > 63"
  from b have "floorlog 2 (nat x) \<le> 63" using nn by (simp add: BitLen_def)
  then have "nat x < 2 ^ 63" by (simp add: floorlog_le_iff)
  then show ?thesis using nn by (simp add: nat_less_iff)
qed

lemma int_of_Uint64_id: "0 \<le> x \<Longrightarrow> x < 2 ^ 63 \<Longrightarrow> int_of_Uint64 x = x"
  by (simp add: int_of_Uint64_def sint_sbintrunc' signed_take_bit_int_eq_self)

text \<open>
  Claim C9. Whenever the offset word read by \<open>lengthPrefixPointsTo\<close> exists (thirty-two bytes
  of the buffer start at \<open>index\<close>), the decoder does not panic; a returned pair
  \<open>(start, length)\<close> is the end of the length word and the value of the length word, with
  \<open>start + length\<close> inside the buffer; and an offset that leaves no room for the length word,
  or a length that runs past the end of the buffer, is answered with an error.
\<close>

theorem lengthPrefixPointsTo_bounds:
  assumes idx: "0 \<le> index" "index + 32 \<le> int (length output)"
  shows "lengthPrefixPointsTo index output \<noteq> Panic \<and>
    (\<forall>start len. lengthPrefixPointsTo index output = Ok (start, len) \<longrightarrow>
        start = setBytes (take 32 (drop (nat index) output)) + 32 \<and>
        len = setBytes (take 32 (drop (nat (start - 32)) output)) \<and>
        0 \<le> len \<and> start + len \<le> int (length output)) \<and>
    (int (length output) < setBytes (take 32 (drop (nat index) output)) + 32 \<or>
     int (length output) < setBytes (take 32 (drop (nat index) output)) + 32 +
        setBytes (take 32 (drop (nat (setBytes (take 32 (drop (nat index) output)))) output))
      \<longrightarrow> (\<exists>e. lengthPrefixPointsTo index output = Error e))"
proof -
  define off where "off = setBytes (take 32 (drop (nat index) output))"
  have w: "slice output index (index + 32) = Some (take 32 (drop (nat index) output))"
    using idx by (simp add: slice_def)
  have off0: "0 \<le> off" by (simp add: off_def setBytes_nonneg)
  show ?thesis
  proof (cases "off + 32 > int (length output)")
    case True
    then show ?thesis
      by (simp add: lengthPrefixPointsTo_def w Let_def off_def)
  next
    case inb: False
    show ?thesis
    proof (cases "BitLen (off + 32) > 63")
      case True
      then show ?thesis using inb
        by (simp add: lengthPrefixPointsTo_def w Let_def off_def)
    next
      case small: False
      have lt: "off + 32 < 2 ^ 63" using BitLen_le_63 [OF _ small] off0 by simp
      have conv: "int_of_Uint64 (off + 32) = off + 32"
        using int_of_Uint64_id [OF _ lt] off0 by simp
      have lw: "slice output off (off + 32) = Some (take 32 (drop (nat off) output))"
        using inb off0 by (simp add: slice_def)
      define ln where "ln = setBytes (take 32 (drop (nat off) output))"
      have ln0: "0 \<le> ln" by (simp add: ln_def setBytes_nonneg)
      show ?thesis
      proof (cases "BitLen (off + 32 + ln) > 63 \<or> off + 32 + ln > int (length output)")
        case True
        then show ?thesis using inb small
          by (auto simp add: lengthPrefixPointsTo_def w Let_def off_def[symmetric] conv lw
                ln_def[symmetric])
      next
        case False
        then have fits: "\<not> BitLen (off + 32 + ln) > 63" "off + 32 + ln \<le> int (length output)" by auto
        have "off + 32 + ln < 2 ^ 63" using BitLen_le_63 [OF _ fits(1)] off0 ln0 by simp
        then have "ln < 2 ^ 63" using off0 by linarith
        then have convl: "int_of_Uint64 ln = ln" using int_of_Uint64_id ln0 by blast
        show ?thesis using inb small fits ln0
          by (simp add: lengthPrefixPointsTo_def w Let_def off_def[symmetric] conv lw ln_def[symmetric] convl)
      qed
    qed
  qed
qed

theorem lengthPrefixPointsTo_bounds_witness:
  "(0::int) \<le> 0 \<and> (0::int) + 32 \<le> int (length (replicate 31 (0::byte) @ [32] @ replicate 31 0 @ [3] @ [97, 98, 99]))
   \<and> lengthPrefixPointsTo 0 (replicate 31 0 @ [32] @ replicate 31 0 @ [3] @ [97, 98, 99]) = Ok (64, 3)
   \<and> (64::int) + 3 \<le> int (length (replicate 31 (0::byte) @ [32] @ replicate 31 0 @ [3] @ [97, 98, 99]))"
proof -
  let ?buf = "replicate 31 (0::byte) @ [32] @ replicate 31 0 @ [3] @ [97, 98, 99]"
  have h1: "(0::int) \<le> 0" by simp
  have h2: "(0::int) + 32 \<le> int (length ?buf)" by simp
  have ev: "lengthPrefixPointsTo 0 ?buf = Ok (64, 3)" by code_simp
  from lengthPrefixPointsTo_bounds [OF h1 h2] ev
  have "(64::int) + 3 \<le> int (length ?buf)" by blast
  with h1 h2 ev show ?thesis by blast
qed

text \<open>
  Concrete runs: a well-formed string of three bytes, an offset that points past the buffer,
  and a call on a buffer too short to hold the offset word at all (the slice expression
  panics, which is why the theorem asks for the word to exist).
\<close>

lemma lengthPrefixPointsTo_example_ok: "lengthPrefixPointsTo 0 (replicate 31 0 @ [32] @ replicate 31 0 @ [3] @ [97, 98, 99]) = Ok (64, 3)"
  by code_simp

lemma lengthPrefixPointsTo_example_offset_outside: "lengthPrefixPointsTo 0 (replicate 31 0 @ [64] @ replicate 31 0 @ [3]) = Error (OffsetOverSliceBoundary 96 64)"
  by code_simp

lemma lengthPrefixPointsTo_without_offset_word: "lengthPrefixPointsTo 0 [] = Panic"
  by code_simp

section \<open>Properties of \<open>EncodeABI\<close>\<close>

text \<open>
  The loop of ethereum.go keeps the first \<open>len(method.Inputs)\<close> parameters; the loop of
  api/privacy/models.go never hands more arguments to \<open>Pack\<close> than it was given, and one
  fewer for every parameter whose coercion did not succeed.
\<close>

lemma EncodeABI_loop_take:
  "EncodeABI_loop inputs params i args = args @ take (length inputs - i) params"
proof (induction params arbitrary: i args)
  case Nil
  show ?case by simp
next
  case (Cons p ps)
  show ?case
  proof (cases "i \<ge> length inputs")
    case True
    then show ?thesis by simp
  next
    case False
    then have "length inputs - i = Suc (length inputs - (i + 1))" by simp
    with False Cons.IH [of "i + 1" "args @ [p]"] show ?thesis by simp
  qed
qed

lemma EncodeABI_models_loop_length:
  "EncodeABI_models_loop inputs ps i args = Some r \<Longrightarrow>
     length r \<le> length args + min (length ps) (length inputs - i)"
proof (induction ps arbitrary: i args)
  case Nil
  then show ?case by simp
next
  case (Cons p ps)
  show ?case
  proof (cases "i \<ge> length inputs")
    case True
    with Cons.prems show ?thesis by simp
  next
    case False
    then have m: "min (length (p # ps)) (length inputs - i) = Suc (min (length ps) (length inputs - (i + 1)))"
      by simp
    from Cons.prems False Cons.IH show ?thesis
      unfolding m
      by (fastforce split: outcome.splits go_value.splits)
  qed
qed

lemma EncodeABI_models_loop_omits:
  "EncodeABI_models_loop inputs ps i args = Some r \<Longrightarrow> k < length ps \<Longrightarrow> i + k < length inputs \<Longrightarrow>
     \<forall>v. coerceAbiParameter (arg_Type (inputs ! (i + k))) (ps ! k) \<noteq> Ok v \<Longrightarrow>
     length r < length args + min (length ps) (length inputs - i)"
proof (induction ps arbitrary: i args k)
  case Nil
  then show ?case by simp
next
  case (Cons p ps)
  from Cons.prems(3) have inb: "\<not> i \<ge> length inputs" by simp
  then have m: "min (length (p # ps)) (length inputs - i) = Suc (min (length ps) (length inputs - (i + 1)))"
    by simp
  show ?case
  proof (cases k)
    case 0
    with Cons.prems(4) have nok: "\<forall>v. coerceAbiParameter (arg_Type (inputs ! i)) p \<noteq> Ok v" by simp
    from Cons.prems(1) inb nok
    have "EncodeABI_models_loop inputs ps (i + 1) args = Some r"
      by (simp split: outcome.splits)
    from EncodeABI_models_loop_length [OF this] show ?thesis unfolding m by simp
  next
    case (Suc k')
    with Cons.prems have k': "k' < length ps" "(i + 1) + k' < length inputs"
      "\<forall>v. coerceAbiParameter (arg_Type (inputs ! ((i + 1) + k'))) (ps ! k') \<noteq> Ok v"
      by simp_all
    from Cons.prems(1) inb
    obtain args' where step: "EncodeABI_models_loop inputs ps (i + 1) args' = Some r"
      and len: "length args' \<le> Suc (length args)"
      by (fastforce split: outcome.splits go_value.splits)
    from Cons.IH [OF step k'] len show ?thesis unfolding m by simp
  qed
qed

lemma EncodeABI_forwards:
  "EncodeABI pack meth params =
     (case pack (method_Inputs meth) (take (length (method_Inputs meth)) params) of
        Panic \<Rightarrow> Ok None
      | Error err \<Rightarrow> Error err
      | Ok encodedArgs \<Rightarrow> Ok (Some (method_Id meth @ encodedArgs)))"
  by (simp add: EncodeABI_def EncodeABI_loop_take)

lemma coerce_uint256_string: "coerceAbiParameter uint256_t (GoString ''5'') = Error (UnhandledType uint256_t)"
  by (simp add: coerceAbiParameter.simps uint256_t_def)

lemma coerce_bool_true: "coerceAbiParameter bool_t (GoBool True) = Ok (GoBool True)"
  by (simp add: coerceAbiParameter.simps bool_t_def)

lemma coerce_bool_string: "coerceAbiParameter bool_t (GoString ''yes'') = Panic"
  by (simp add: coerceAbiParameter.simps bool_t_def)

lemma example_pack_strict:
  "\<forall>args. length args \<noteq> length inputs \<longrightarrow> (\<exists>err. example_pack inputs args = Error err)"
  by (simp add: example_pack_def)

text \<open>
  Claim C1, as amended. \<open>EncodeABI\<close> of api/privacy/models.go does not abort at a parameter
  that cannot be coerced: a coercion error is logged, the parameter is left out and the
  loop goes on; a failed type assertion inside the coercion panics. If the library's \<open>Pack\<close>
  refuses an argument list whose length differs from the number of declared inputs, then a
  call in which some parameter within the declared inputs fails to coerce ends in a panic
  or in a returned error, never in calldata; and a returned error is the one \<open>Pack\<close> gave
  for the shortened argument list.
\<close>

theorem EncodeABI_models_uncoercible_parameter:
  fixes pack :: "'e packer"
  assumes strict: "\<forall>args. length args \<noteq> length (method_Inputs meth) \<longrightarrow>
                      (\<exists>err. pack (method_Inputs meth) args = Error err)"
    and i: "i < length params" "i < length (method_Inputs meth)"
    and fails: "\<forall>v. coerceAbiParameter (arg_Type (method_Inputs meth ! i)) (params ! i) \<noteq> Ok v"
  shows "(EncodeABI_models pack meth params = Panic \<or>
          (\<exists>err. EncodeABI_models pack meth params = Error err)) \<and>
         (\<forall>err. EncodeABI_models pack meth params = Error err \<longrightarrow>
            (\<exists>args. EncodeABI_models_loop (method_Inputs meth) params 0 [] = Some args \<and>
                    length args < length (method_Inputs meth) \<and>
                    pack (method_Inputs meth) args = Error err))"
proof (cases "EncodeABI_models_loop (method_Inputs meth) params 0 [] ")
  case None
  then show ?thesis by (simp add: EncodeABI_models_def)
next
  case (Some args)
  from EncodeABI_models_loop_omits [OF Some i(1)] i(2) fails
  have short: "length args < length (method_Inputs meth)" by simp
  then have "length args \<noteq> length (method_Inputs meth)" by simp
  with strict obtain err where e: "pack (method_Inputs meth) args = Error err" by blast
  show ?thesis using Some e short by (simp add: EncodeABI_models_def)
qed

theorem EncodeABI_models_uncoercible_parameter_witness:
  "(0::nat) < length [GoString ''5'', GoBool True]
   \<and> coerceAbiParameter uint256_t (GoString ''5'') = Error (UnhandledType uint256_t)
   \<and> EncodeABI_models_loop [\<lparr>arg_Name = ''amount'', arg_Type = uint256_t\<rparr>, \<lparr>arg_Name = ''flag'', arg_Type = bool_t\<rparr>]
        [GoString ''5'', GoBool True] 0 [] = Some [GoBool True]
   \<and> EncodeABI_models example_pack
        \<lparr>method_Name = ''set'',
         method_Inputs = [\<lparr>arg_Name = ''amount'', arg_Type = uint256_t\<rparr>, \<lparr>arg_Name = ''flag'', arg_Type = bool_t\<rparr>],
         method_Id = [1, 2, 3, 4]\<rparr>
        [GoString ''5'', GoBool True] = Error ''argument count mismatch''"
proof -
  let ?inputs = "[\<lparr>arg_Name = ''amount'', arg_Type = uint256_t\<rparr>, \<lparr>arg_Name = ''flag'', arg_Type = bool_t\<rparr>]"
  let ?m = "\<lparr>method_Name = ''set'', method_Inputs = ?inputs, method_Id = [1, 2, 3, 4]\<rparr>"
  let ?ps = "[GoString ''5'', GoBool True]"
  have strict: "\<forall>args. length args \<noteq> length (method_Inputs ?m) \<longrightarrow>
      (\<exists>err. example_pack (method_Inputs ?m) args = Error err)"
    by (simp add: example_pack_def)
  have i: "(0::nat) < length ?ps" "(0::nat) < length (method_Inputs ?m)" by simp_all
  have fails: "\<forall>v. coerceAbiParameter (arg_Type (method_Inputs ?m ! 0)) (?ps ! 0) \<noteq> Ok v"
    by (simp add: coerce_uint256_string)
  have loop: "EncodeABI_models_loop ?inputs ?ps 0 [] = Some [GoBool True]"
    by (simp add: coerce_uint256_string coerce_bool_true)
  have run: "EncodeABI_models example_pack ?m ?ps = Error ''argument count mismatch''"
    by (simp add: EncodeABI_models_def coerce_uint256_string coerce_bool_true example_pack_def)
  from EncodeABI_models_uncoercible_parameter
         [where meth = ?m and pack = example_pack and i = 0 and params = ?ps, OF strict i fails] run
  have "\<exists>args. EncodeABI_models_loop (method_Inputs ?m) ?ps 0 [] = Some args \<and>
          length args < length (method_Inputs ?m) \<and>
          example_pack (method_Inputs ?m) args = Error ''argument count mismatch''"
    by blast
  with i loop run show ?thesis by (simp add: coerce_uint256_string)
qed

text \<open>
  The claim as stated asks for an abort with a returned error. A boolean input given a
  string is a failed type assertion: the call panics. And a \<open>uint256\<close> input given a
  string is a coercion error that aborts nothing: the loop goes on to the next parameter
  and the list it builds for \<open>Pack\<close> merely lacks the failed one.
\<close>

theorem EncodeABI_models_uncoercible_parameter_panics:
  "EncodeABI_models example_pack
     \<lparr>method_Name = ''enable'', method_Inputs = [\<lparr>arg_Name = ''flag'', arg_Type = bool_t\<rparr>],
      method_Id = [1, 2, 3, 4]\<rparr>
     [GoString ''yes''] = Panic
   \<and> coerceAbiParameter uint256_t (GoString ''5'') = Error (UnhandledType uint256_t)
   \<and> EncodeABI_models_loop
        [\<lparr>arg_Name = ''amount'', arg_Type = uint256_t\<rparr>, \<lparr>arg_Name = ''flag'', arg_Type = bool_t\<rparr>]
        [GoString ''5'', GoBool True] 0 [] = Some [GoBool True]"
  by (simp add: EncodeABI_models_def coerce_bool_string coerce_uint256_string coerce_bool_true)

text \<open>
  Claim C2, as amended. Given fewer arguments than declared inputs, neither encoder
  truncates or rejects the list itself. \<open>EncodeABI\<close> of ethereum.go hands exactly the
  supplied arguments to \<open>Pack\<close> and returns the selector followed by the packed bytes when
  \<open>Pack\<close> accepts them, the error of \<open>Pack\<close> when it refuses them, and nil results when it
  panics; the encoder of api/privacy/models.go hands the arguments that coerced, never
  more than were supplied, to \<open>Pack\<close> and returns its bytes or its error likewise, but
  has no \<open>recover\<close>: a panic of \<open>Pack\<close> is a panic of the encoder. With a \<open>Pack\<close> that
  refuses an argument list whose length differs from the number of declared inputs, the
  first returns an error and the second returns no calldata.
\<close>

theorem EncodeABI_short_argument_list:
  fixes pack :: "'e packer"
  assumes short: "length params < length (method_Inputs meth)"
  shows "EncodeABI pack meth params =
           (case pack (method_Inputs meth) params of
              Panic \<Rightarrow> Ok None
            | Error err \<Rightarrow> Error err
            | Ok encodedArgs \<Rightarrow> Ok (Some (method_Id meth @ encodedArgs)))
       \<and> (\<forall>args. EncodeABI_models_loop (method_Inputs meth) params 0 [] = Some args \<longrightarrow>
             length args \<le> length params \<and>
             EncodeABI_models pack meth params =
               (case pack (method_Inputs meth) args of
                  Panic \<Rightarrow> Panic
                | Error err \<Rightarrow> Error err
                | Ok encodedArgs \<Rightarrow> Ok (Some (method_Id meth @ encodedArgs))))
       \<and> ((\<forall>args. length args \<noteq> length (method_Inputs meth) \<longrightarrow>
               (\<exists>err. pack (method_Inputs meth) args = Error err)) \<longrightarrow>
            (\<exists>err. EncodeABI pack meth params = Error err) \<and>
            (\<forall>bs. EncodeABI_models pack meth params \<noteq> Ok bs))"
proof (intro conjI allI impI)
  show "EncodeABI pack meth params =
           (case pack (method_Inputs meth) params of
              Panic \<Rightarrow> Ok None
            | Error err \<Rightarrow> Error err
            | Ok encodedArgs \<Rightarrow> Ok (Some (method_Id meth @ encodedArgs)))"
    using short by (simp add: EncodeABI_forwards)
next
  fix args
  assume loop: "EncodeABI_models_loop (method_Inputs meth) params 0 [] = Some args"
  from EncodeABI_models_loop_length [OF loop]
  show "length args \<le> length params" by simp
  show "EncodeABI_models pack meth params =
               (case pack (method_Inputs meth) args of
                  Panic \<Rightarrow> Panic
                | Error err \<Rightarrow> Error err
                | Ok encodedArgs \<Rightarrow> Ok (Some (method_Id meth @ encodedArgs)))"
    using loop by (simp add: EncodeABI_models_def)
next
  assume strict: "\<forall>args. length args \<noteq> length (method_Inputs meth) \<longrightarrow>
               (\<exists>err. pack (method_Inputs meth) args = Error err)"
  from short have "length params \<noteq> length (method_Inputs meth)" by simp
  with strict obtain err where "pack (method_Inputs meth) params = Error err" by blast
  then show "\<exists>err. EncodeABI pack meth params = Error err"
    using short by (simp add: EncodeABI_forwards)
next
  fix bs
  assume strict: "\<forall>args. length args \<noteq> length (method_Inputs meth) \<longrightarrow>
               (\<exists>err. pack (method_Inputs meth) args = Error err)"
  show "EncodeABI_models pack meth params \<noteq> Ok bs"
  proof (cases "EncodeABI_models_loop (method_Inputs meth) params 0 []")
    case None
    then show ?thesis by (simp add: EncodeABI_models_def)
  next
    case (Some args)
    from EncodeABI_models_loop_length [OF Some] short
    have "length args \<noteq> length (method_Inputs meth)" by simp
    with strict obtain err where "pack (method_Inputs meth) args = Error err" by blast
    with Some show ?thesis by (simp add: EncodeABI_models_def)
  qed
qed

theorem EncodeABI_short_argument_list_witness:
  "length [GoBool True] < length [\<lparr>arg_Name = ''a'', arg_Type = bool_t\<rparr>, \<lparr>arg_Name = ''b'', arg_Type = bool_t\<rparr>]
   \<and> EncodeABI_models_loop [\<lparr>arg_Name = ''a'', arg_Type = bool_t\<rparr>, \<lparr>arg_Name = ''b'', arg_Type = bool_t\<rparr>]
        [GoBool True] 0 [] = Some [GoBool True]
   \<and> EncodeABI example_pack
        \<lparr>method_Name = ''both'',
         method_Inputs = [\<lparr>arg_Name = ''a'', arg_Type = bool_t\<rparr>, \<lparr>arg_Name = ''b'', arg_Type = bool_t\<rparr>],
         method_Id = [1, 2, 3, 4]\<rparr> [GoBool True] = Error ''argument count mismatch''
   \<and> EncodeABI_models example_pack
        \<lparr>method_Name = ''both'',
         method_Inputs = [\<lparr>arg_Name = ''a'', arg_Type = bool_t\<rparr>, \<lparr>arg_Name = ''b'', arg_Type = bool_t\<rparr>],
         method_Id = [1, 2, 3, 4]\<rparr> [GoBool True] = Error ''argument count mismatch''"
proof -
  let ?inputs = "[\<lparr>arg_Name = ''a'', arg_Type = bool_t\<rparr>, \<lparr>arg_Name = ''b'', arg_Type = bool_t\<rparr>]"
  let ?m = "\<lparr>method_Name = ''both'', method_Inputs = ?inputs, method_Id = [1, 2, 3, 4]\<rparr>"
  have short: "length [GoBool True] < length (method_Inputs ?m)" by simp
  have strict: "\<forall>args. length args \<noteq> length (method_Inputs ?m) \<longrightarrow>
      (\<exists>err. example_pack (method_Inputs ?m) args = Error err)"
    by (simp add: example_pack_def)
  have loop: "EncodeABI_models_loop (method_Inputs ?m) [GoBool True] 0 [] = Some [GoBool True]"
    by (simp add: coerce_bool_true)
  note inst = EncodeABI_short_argument_list [where pack = example_pack and meth = ?m, OF short]
  from inst strict have "\<exists>err. EncodeABI example_pack ?m [GoBool True] = Error err"
    by blast
  with inst have a: "EncodeABI example_pack ?m [GoBool True] = Error ''argument count mismatch''"
    by (simp add: example_pack_def)
  from inst loop have b: "EncodeABI_models example_pack ?m [GoBool True] = Error ''argument count mismatch''"
    by (simp add: example_pack_def)
  from short loop a b show ?thesis by simp
qed

text \<open>
  The claim as stated promises calldata for every short argument list. With one argument
  for two inputs, the counting packer refuses the list, and in api/privacy/models.go a
  boolean given for an address panics in the coercion.
\<close>

theorem EncodeABI_short_argument_list_fails:
  "EncodeABI example_pack
     \<lparr>method_Name = ''transfer'',
      method_Inputs = [\<lparr>arg_Name = ''to'', arg_Type = address_t\<rparr>, \<lparr>arg_Name = ''value'', arg_Type = uint256_t\<rparr>],
      method_Id = [169, 5, 156, 187]\<rparr> [GoBool True] = Error ''argument count mismatch''
   \<and> EncodeABI_models example_pack
     \<lparr>method_Name = ''transfer'',
      method_Inputs = [\<lparr>arg_Name = ''to'', arg_Type = address_t\<rparr>, \<lparr>arg_Name = ''value'', arg_Type = uint256_t\<rparr>],
      method_Id = [169, 5, 156, 187]\<rparr> [GoBool True] = Panic"
  by (simp add: EncodeABI_def EncodeABI_models_def example_pack_def coerceAbiParameter.simps address_t_def)

text \<open>Where the loop does truncate: arguments beyond the declared inputs are dropped.\<close>

lemma EncodeABI_drops_surplus:
  "EncodeABI example_pack
     \<lparr>method_Name = ''enable'', method_Inputs = [\<lparr>arg_Name = ''flag'', arg_Type = bool_t\<rparr>],
      method_Id = [1, 2, 3, 4]\<rparr> [GoBool True, GoString ''surplus'']
   = Ok (Some ([1, 2, 3, 4] @ replicate 31 0 @ [1]))"
  by (simp add: EncodeABI_def example_pack_def)

section \<open>Properties of the chain configuration cache\<close>

lemma GetChainConfig_numeric:
  "chainConfigs w networkID = None \<Longrightarrow> ParseUint networkID 10 = Inr chainID \<Longrightarrow>
   GetChainConfig networkID rpcURL w = (Mainnet, w)"
  by (simp add: GetChainConfig_def)

lemma GetChainConfig_not_numeric:
  "chainConfigs w networkID = None \<Longrightarrow> ParseUint networkID 10 = Inl (err, chainID) \<Longrightarrow>
   GetChainConfig networkID rpcURL w =
     (Mainnet, w\<lparr>MainnetChainConfig := (MainnetChainConfig w)\<lparr>cfg_ChainID := sint chainID\<rparr>,
                 chainConfigs := (chainConfigs w)(networkID \<mapsto> Mainnet)\<rparr>)"
  by (simp add: GetChainConfig_def)

lemma ParseUint_3: "ParseUint ''3'' 10 = Inr 3"
  by (simp add: ParseUint_def digit_value_def)

lemma ParseUint_ropsten: "ParseUint ''ropsten'' 10 = Inl (ErrSyntax, 0)"
  by (simp add: ParseUint_def digit_value_def)

text \<open>
  Claim C4. For the network identifier \<open>"3"\<close> and an empty cache, \<open>GetChainConfig\<close>
  returns the library's mainnet configuration with chain id 1, not 3, and stores nothing:
  the state is unchanged, and a second call does the same again. The chain id is derived
  and the configuration cached only in the branch taken when the identifier is not a
  number.
\<close>

theorem GetChainConfig_numeric_id_not_derived:
  "GetChainConfig ''3'' ''http://node:8545'' initial_world = (Mainnet, initial_world)
   \<and> cfg_ChainID (deref initial_world Mainnet) = 1
   \<and> chainConfigs initial_world ''3'' = None
   \<and> fst (GetChainConfig ''3'' ''http://node:8545''
            (snd (GetChainConfig ''3'' ''http://node:8545'' initial_world))) = Mainnet
   \<and> cfg_ChainID (deref (snd (GetChainConfig ''3'' ''http://node:8545''
            (snd (GetChainConfig ''3'' ''http://node:8545'' initial_world)))) Mainnet) = 1"
proof -
  have none: "chainConfigs initial_world ''3'' = None" by (simp add: initial_world_def)
  have run: "GetChainConfig ''3'' ''http://node:8545'' initial_world = (Mainnet, initial_world)"
    by (rule GetChainConfig_numeric [OF none ParseUint_3])
  have one: "cfg_ChainID (deref initial_world Mainnet) = 1"
    by (simp add: deref_def initial_world_def)
  from none run one show ?thesis by simp
qed

text \<open>
  The branch that does assign and cache: an identifier that is not a number gets chain id
  0, written into the library's global mainnet configuration, which every later caller
  for any identifier then reads.
\<close>

lemma GetChainConfig_name_overwrites_mainnet:
  "chainConfigs (snd (GetChainConfig ''ropsten'' ''http://node:8545'' initial_world)) ''ropsten'' = Some Mainnet
   \<and> cfg_ChainID (deref (snd (GetChainConfig ''ropsten'' ''http://node:8545'' initial_world)) Mainnet) = 0
   \<and> cfg_ChainID (deref (snd (GetChainConfig ''3'' ''http://node:8545''
        (snd (GetChainConfig ''ropsten'' ''http://node:8545'' initial_world))))
        (fst (GetChainConfig ''3'' ''http://node:8545''
        (snd (GetChainConfig ''ropsten'' ''http://node:8545'' initial_world))))) = 0"
proof -
  have none: "chainConfigs initial_world ''ropsten'' = None" by (simp add: initial_world_def)
  note r = GetChainConfig_not_numeric [OF none ParseUint_ropsten, of "''http://node:8545''"]
  have none3: "chainConfigs (snd (GetChainConfig ''ropsten'' ''http://node:8545'' initial_world)) ''3'' = None"
    unfolding r by (simp add: initial_world_def)
  note s = GetChainConfig_numeric [OF none3 ParseUint_3, of "''http://node:8545''"]
  show ?thesis unfolding s unfolding r by (simp add: deref_def)
qed

section \<open>Properties of the peer count\<close>

lemmas run_defs =
  GetPeerCount_def InvokeJsonRpcClient_def GetChainID_def resolve_client_def ResolveEthClient_def
  DialJsonRpc_def ResolveJsonRpcClient_def GetSyncProgress_def clearCachedClients_def emit_def
  Let_def

text \<open>
  Claim C8. On a node whose \<open>net_peerCount\<close> reply fails and whose \<open>parity_netPeers\<close>
  reply succeeds with five peers, \<open>GetPeerCount\<close> does not return 5: the warning after
  the second invocation calls \<open>Error()\<close> on a nil error and the function panics, in both
  files.
\<close>

theorem GetPeerCount_fallback_panics:
  "fst (GetPeerCount Ethereum_go example_node ''1'' ''http://node:8545'' initial_world) = Panic
   \<and> fst (GetPeerCount Privacy_models_go example_node ''1'' ''http://node:8545'' initial_world) = Panic"
  by (simp add: run_defs example_node_def initial_world_def)

text \<open>
  Whenever the first invocation fails, the result of the second is never used: the
  function returns 0 or panics.
\<close>

lemma GetPeerCount_primary_failed:
  assumes "fst (InvokeJsonRpcClient f n networkID rpcURL ''net_peerCount'' w) = Error err"
  shows "fst (GetPeerCount f n networkID rpcURL w) = Ok 0 \<or>
         fst (GetPeerCount f n networkID rpcURL w) = Panic"
  using assms
  by (auto simp add: GetPeerCount_def split: prod.splits outcome.splits)

lemma GetPeerCount_fallback_events:
  "events (snd (GetPeerCount Ethereum_go example_node ''1'' ''http://node:8545'' initial_world)) =
     [Dial ''http://node:8545'', Call_SyncProgress 0, Call_NetworkID 0,
      Post ''http://node:8545'' ''net_peerCount'',
      Call_SyncProgress 0, Call_NetworkID 0,
      Post ''http://node:8545'' ''parity_netPeers'']"
  by (simp add: run_defs example_node_def initial_world_def)

section \<open>Properties of the network status\<close>

lemma ResolveJsonRpcClient_no_panic: "ResolveJsonRpcClient n networkID rpcURL w \<noteq> (Panic, w')"
  by (simp add: ResolveJsonRpcClient_def Let_def split: option.splits)

lemma GetSyncProgress_no_panic: "GetSyncProgress n (Some client) w \<noteq> (Panic, w')"
  by (cases client) (simp add: GetSyncProgress_def Let_def split: sum.splits)

lemma DialJsonRpc_no_panic: "DialJsonRpc n networkID rpcURL w \<noteq> (Panic, w')"
  by (auto simp add: DialJsonRpc_def Let_def ResolveJsonRpcClient_no_panic GetSyncProgress_no_panic
        split: prod.splits outcome.splits if_splits)

lemma ResolveEthClient_no_panic: "ResolveEthClient n networkID rpcURL w \<noteq> (Panic, w')"
  by (auto simp add: ResolveEthClient_def Let_def DialJsonRpc_no_panic
        split: prod.splits outcome.splits if_splits)

lemma resolve_client_no_panic: "resolve_client f n networkID rpcURL w \<noteq> (Panic, w')"
  by (cases f)
     (auto simp add: resolve_client_def DialJsonRpc_no_panic ResolveEthClient_no_panic
        split: prod.splits outcome.splits)

lemma configuring_status_State: "status_State (configuring_status m) = Some ''configuring''"
  by (simp add: configuring_status_def stringOrNil_def)

lemma configuring_status_Meta: "status_Meta (configuring_status m) ''error'' = Some m"
  by (simp add: configuring_status_def)

lemma DialJsonRpc_dial_fails:
  assumes "ethclientRpcClients w networkID = []" "ethrpcClients w networkID = []"
    and "dial_reply n (length (events w)) rpcURL = Some message"
  shows "fst (DialJsonRpc n networkID rpcURL w) = Error (FromLibrary message)"
  using assms by (simp add: DialJsonRpc_def ResolveJsonRpcClient_def Let_def)

lemma DialJsonRpc_probe_fails:
  assumes "ethclientRpcClients w networkID = NewClient c # rest"
    and "syncing_reply n (length (events w)) c = Inl message"
  shows "fst (DialJsonRpc n networkID rpcURL w) = Error (FromLibrary message)"
  using assms by (simp add: DialJsonRpc_def GetSyncProgress_def Let_def)

lemma DialJsonRpc_probe_fails_after_dial:
  assumes "ethclientRpcClients w networkID = []" "ethrpcClients w networkID = []"
    and "dial_reply n (length (events w)) rpcURL = None"
    and "syncing_reply n (Suc (length (events w))) (length (events w)) = Inl message"
  shows "fst (DialJsonRpc n networkID rpcURL w) = Error (FromLibrary message)"
  using assms
  by (simp add: DialJsonRpc_def ResolveJsonRpcClient_def GetSyncProgress_def emit_def Let_def)

lemma DialJsonRpc_errors:
  assumes "fst (DialJsonRpc n networkID rpcURL w) = Error err"
  shows "\<exists>message. err = FromLibrary message \<and>
           ((\<exists>t. dial_reply n t rpcURL = Some message) \<or> (\<exists>t c. syncing_reply n t c = Inl message))"
  using assms
  by (auto simp add: DialJsonRpc_def ResolveJsonRpcClient_def GetSyncProgress_def Let_def
        split: prod.splits outcome.splits if_splits option.splits sum.splits eth_client.splits)

text \<open>
  Claim C7. When \<open>DialJsonRpc\<close> (the dial and its liveness probe) returns an error, or the
  RPC URL is empty, \<open>GetNetworkStatus\<close> of ethereum.go returns no error but a status whose
  state is \<open>"configuring"\<close> and whose metadata carry a message under \<open>"error"\<close>.
\<close>

theorem GetNetworkStatus_configuring:
  assumes "(\<exists>err. fst (DialJsonRpc n networkID rpcURL w) = Error err) \<or> rpcURL = []"
  shows "\<exists>status message.
           fst (GetNetworkStatus Ethereum_go n networkID rpcURL w) = Ok (Some status) \<and>
           status_State status = Some ''configuring'' \<and>
           status_Meta status ''error'' = Some (JString message)"
proof (cases "DialJsonRpc n networkID rpcURL w")
  case (Pair r w1)
  show ?thesis
  proof (cases r)
    case Panic
    with Pair DialJsonRpc_no_panic show ?thesis by blast
  next
    case (Error err)
    with Pair have "fst (GetNetworkStatus Ethereum_go n networkID rpcURL w) =
        Ok (Some (configuring_status (JString (error_message err))))"
      by (simp add: GetNetworkStatus_def resolve_client_def)
    then show ?thesis
      using configuring_status_State configuring_status_Meta by blast
  next
    case (Ok client)
    with Pair assms have url: "rpcURL = []" by auto
    with Pair Ok have "fst (GetNetworkStatus Ethereum_go n networkID rpcURL w) =
        Ok (Some (configuring_status (JString ''No 'full-node' JSON-RPC URL configured or resolvable'')))"
      by (simp add: GetNetworkStatus_def resolve_client_def)
    then show ?thesis
      using configuring_status_State configuring_status_Meta by blast
  qed
qed

theorem GetNetworkStatus_configuring_witness:
  "fst (DialJsonRpc unreachable_node ''1'' ''http://node:8545'' initial_world)
     = Error (FromLibrary ''connection refused'')
   \<and> (\<exists>status.
         fst (GetNetworkStatus Ethereum_go unreachable_node ''1'' ''http://node:8545'' initial_world)
           = Ok (Some status) \<and>
         status_State status = Some ''configuring'' \<and>
         status_Meta status ''error'' = Some (JString ''connection refused''))"
proof -
  have d: "fst (DialJsonRpc unreachable_node ''1'' ''http://node:8545'' initial_world)
     = Error (FromLibrary ''connection refused'')"
    by (rule DialJsonRpc_dial_fails) (simp_all add: initial_world_def unreachable_node_def)
  then have h: "(\<exists>err. fst (DialJsonRpc unreachable_node ''1'' ''http://node:8545'' initial_world)
     = Error err) \<or> ''http://node:8545'' = []"
    by simp
  from GetNetworkStatus_configuring [OF h]
  obtain status message where
    s: "fst (GetNetworkStatus Ethereum_go unreachable_node ''1'' ''http://node:8545'' initial_world)
           = Ok (Some status)"
       "status_State status = Some ''configuring''"
       "status_Meta status ''error'' = Some (JString message)"
    by blast
  have "fst (GetNetworkStatus Ethereum_go unreachable_node ''1'' ''http://node:8545'' initial_world)
          = Ok (Some (configuring_status (JString ''connection refused'')))"
  proof -
    from d obtain w1 where
      p: "DialJsonRpc unreachable_node ''1'' ''http://node:8545'' initial_world
            = (Error (FromLibrary ''connection refused''), w1)"
      by (cases "DialJsonRpc unreachable_node ''1'' ''http://node:8545'' initial_world") auto
    show ?thesis by (simp add: GetNetworkStatus_def resolve_client_def p)
  qed
  with s(1) have "status = configuring_status (JString ''connection refused'')"
    by simp
  then have "status_Meta status ''error'' = Some (JString ''connection refused'')"
    by (simp add: configuring_status_Meta)
  with d s show ?thesis by blast
qed

text \<open>
  The same holds in api/privacy/models.go, where the client may also come back nil.
\<close>

lemma GetNetworkStatus_models_configuring:
  assumes "(\<exists>err. fst (ResolveEthClient n networkID rpcURL w) = Error err) \<or> rpcURL = []
           \<or> fst (ResolveEthClient n networkID rpcURL w) = Ok None"
  shows "\<exists>status message.
           fst (GetNetworkStatus Privacy_models_go n networkID rpcURL w) = Ok (Some status) \<and>
           status_State status = Some ''configuring'' \<and>
           status_Meta status ''error'' = Some (JString message)"
proof (cases "ResolveEthClient n networkID rpcURL w")
  case (Pair r w1)
  show ?thesis
  proof (cases r)
    case Panic
    with Pair ResolveEthClient_no_panic show ?thesis by blast
  next
    case (Error err)
    with Pair have "fst (GetNetworkStatus Privacy_models_go n networkID rpcURL w) =
        Ok (Some (configuring_status (JString (error_message err))))"
      by (simp add: GetNetworkStatus_def resolve_client_def)
    then show ?thesis
      using configuring_status_State configuring_status_Meta by blast
  next
    case (Ok client)
    with Pair assms have "rpcURL = [] \<or> client = None" by auto
    with Pair Ok have "\<exists>m. fst (GetNetworkStatus Privacy_models_go n networkID rpcURL w) =
        Ok (Some (configuring_status (JString m)))"
      by (auto simp add: GetNetworkStatus_def resolve_client_def)
    then show ?thesis
      using configuring_status_State configuring_status_Meta by blast
  qed
qed

section \<open>Properties of \<open>SignTx\<close>\<close>

text \<open>Every function only adds to the trace, and \<open>DialJsonRpc\<close> always adds to it.\<close>

lemma events_emit: "events (emit e w) = events w @ [e]"
  by (simp add: emit_def)

lemma events_clearCachedClients: "\<exists>xs. events (clearCachedClients networkID w) = events w @ xs"
  by (simp add: clearCachedClients_def)

lemma events_ResolveJsonRpcClient:
  "ResolveJsonRpcClient n networkID rpcURL w = (r, w') \<Longrightarrow> \<exists>xs. events w' = events w @ xs"
  by (auto simp add: ResolveJsonRpcClient_def Let_def emit_def split: if_splits option.splits)

lemma events_GetSyncProgress:
  "GetSyncProgress n (Some (NewClient c)) w = (r, w') \<Longrightarrow> events w' = events w @ [Call_SyncProgress c]"
  by (auto simp add: GetSyncProgress_def Let_def emit_def split: sum.splits)

lemma events_DialJsonRpc:
  assumes "DialJsonRpc n networkID rpcURL w = (r, w')"
  shows "\<exists>x xs. events w' = events w @ x # xs"
proof (cases "length (ethclientRpcClients w networkID) = 0")
  case True
  obtain r1 w1 where res: "ResolveJsonRpcClient n networkID rpcURL w = (r1, w1)"
    by (cases "ResolveJsonRpcClient n networkID rpcURL w")
  from events_ResolveJsonRpcClient [OF res] obtain xs where xs: "events w1 = events w @ xs" by blast
  show ?thesis
  proof (cases r1)
    case Panic
    with res ResolveJsonRpcClient_no_panic show ?thesis by blast
  next
    case (Error err)
    with res True have "ethrpcClients w networkID = []"
      by (auto simp add: ResolveJsonRpcClient_def Let_def split: if_splits option.splits)
    with res Error have "events w1 = events w @ [Dial rpcURL]"
      by (auto simp add: ResolveJsonRpcClient_def Let_def emit_def split: option.splits)
    moreover from assms True res Error have "w' = w1"
      by (simp add: DialJsonRpc_def Let_def)
    ultimately show ?thesis by simp
  next
    case (Ok rpcClient)
    define w2 where "w2 = w1\<lparr>ethrpcClients :=
        (ethrpcClients w1)(networkID := ethrpcClients w1 networkID @ [rpcClient]),
      ethclientRpcClients :=
        (ethclientRpcClients w1)(networkID := ethclientRpcClients w networkID @ [NewClient rpcClient])\<rparr>"
    have e2: "events w2 = events w @ xs" by (simp add: w2_def xs)
    obtain r3 w3 where probe: "GetSyncProgress n (Some (NewClient rpcClient)) w2 = (r3, w3)"
      by (cases "GetSyncProgress n (Some (NewClient rpcClient)) w2")
    from events_GetSyncProgress [OF probe] e2
    have e3: "events w3 = events w @ xs @ [Call_SyncProgress rpcClient]" by simp
    from assms True res Ok probe
    have "w' = w3 \<or> w' = clearCachedClients networkID w3"
      by (auto simp add: DialJsonRpc_def Let_def w2_def split: outcome.splits)
    with e3 events_clearCachedClients [of networkID w3] show ?thesis
      by (cases xs) auto
  qed
next
  case False
  obtain c where c: "hd (ethclientRpcClients w networkID) = NewClient c"
    by (cases "hd (ethclientRpcClients w networkID)")
  obtain r3 w3 where probe: "GetSyncProgress n (Some (NewClient c)) w = (r3, w3)"
    by (cases "GetSyncProgress n (Some (NewClient c)) w")
  from events_GetSyncProgress [OF probe]
  have e3: "events w3 = events w @ [Call_SyncProgress c]" .
  from assms False c probe
  have "w' = w3 \<or> w' = clearCachedClients networkID w3"
    by (auto simp add: DialJsonRpc_def Let_def split: outcome.splits)
  with e3 events_clearCachedClients [of networkID w3] show ?thesis by auto
qed

lemma events_ResolveEthClient:
  "ResolveEthClient n networkID rpcURL w = (r, w') \<Longrightarrow> \<exists>xs. events w' = events w @ xs"
  by (cases "DialJsonRpc n networkID rpcURL w")
     (auto simp add: ResolveEthClient_def Let_def split: if_splits outcome.splits
        dest!: events_DialJsonRpc)

lemma events_resolve_client:
  "resolve_client f n networkID rpcURL w = (r, w') \<Longrightarrow> \<exists>xs. events w' = events w @ xs"
  by (cases f; cases "DialJsonRpc n networkID rpcURL w")
     (auto simp add: resolve_client_def split: outcome.splits
        dest!: events_DialJsonRpc events_ResolveEthClient)

lemma events_GetChainID:
  assumes "GetChainID f n networkID rpcURL w = (r, w')"
  shows "\<exists>xs. events w' = events w @ xs"
proof -
  obtain r1 w1 where res: "resolve_client f n networkID rpcURL w = (r1, w1)"
    by (cases "resolve_client f n networkID rpcURL w")
  from events_resolve_client [OF res] obtain xs where "events w1 = events w @ xs" by blast
  with assms res show ?thesis
    by (auto simp add: GetChainID_def Let_def emit_def
          split: outcome.splits option.splits eth_client.splits sum.splits)
qed

lemma events_InvokeJsonRpcClient:
  assumes "InvokeJsonRpcClient f n networkID rpcURL m w = (r, w')"
  shows "\<exists>xs. events w' = events w @ xs"
proof -
  obtain r1 w1 where res: "GetChainID f n networkID rpcURL w = (r1, w1)"
    by (cases "GetChainID f n networkID rpcURL w")
  from events_GetChainID [OF res] obtain xs where "events w1 = events w @ xs" by blast
  with assms res show ?thesis
    by (auto simp add: InvokeJsonRpcClient_def Let_def emit_def
          split: outcome.splits sum.splits)
qed

lemma events_GetLatestBlockNumber:
  assumes "GetLatestBlockNumber f n networkID rpcURL w = (r, w')"
  shows "\<exists>xs. events w' = events w @ xs"
proof -
  obtain r1 w1 where res: "InvokeJsonRpcClient f n networkID rpcURL ''eth_getBlockByNumber'' w = (r1, w1)"
    by (cases "InvokeJsonRpcClient f n networkID rpcURL ''eth_getBlockByNumber'' w")
  from events_InvokeJsonRpcClient [OF res] obtain xs where "events w1 = events w @ xs" by blast
  with assms res show ?thesis
    by (auto simp add: GetLatestBlockNumber_def GetLatestBlock_def
          split: outcome.splits json.splits option.splits sum.splits)
qed

lemma events_GetChainConfig:
  "GetChainConfig networkID rpcURL w = (cfg, w') \<Longrightarrow> events w' = events w"
  by (auto simp add: GetChainConfig_def Let_def split: option.splits sum.splits prod.splits)

lemma sign_transaction_unparsable:
  "HexToECDSA lib privateKey = Inl err \<Longrightarrow>
   sign_transaction lib cfg blockNumber privateKey to tx = Error (FailedReadPrivateKey err)"
  by (simp add: sign_transaction_def)

lemma GetSyncProgress_errors:
  "GetSyncProgress n client w = (Error e, w') \<Longrightarrow> \<exists>m. e = FromLibrary m"
  by (auto simp add: GetSyncProgress_def Let_def split: option.splits eth_client.splits sum.splits)

lemma DialJsonRpc_error_shape:
  "DialJsonRpc n networkID rpcURL w = (Error e, w') \<Longrightarrow> \<exists>m. e = FromLibrary m"
  using DialJsonRpc_errors [of n networkID rpcURL w e] by auto

lemma GetChainID_no_error: "GetChainID f n networkID rpcURL w \<noteq> (Error e, w')"
  by (auto simp add: GetChainID_def Let_def
        split: prod.splits outcome.splits option.splits eth_client.splits sum.splits)

lemma InvokeJsonRpcClient_errors:
  "InvokeJsonRpcClient f n networkID rpcURL m w = (Error e, w') \<Longrightarrow> \<exists>s. e = FromLibrary s"
  by (auto simp add: InvokeJsonRpcClient_def Let_def GetChainID_no_error
        split: prod.splits outcome.splits sum.splits)

lemma GetLatestBlockNumber_errors:
  "GetLatestBlockNumber f n networkID rpcURL w = (Error e, w') \<Longrightarrow>
     \<forall>m. e \<noteq> FailedReadPrivateKey m"
  by (auto simp add: GetLatestBlockNumber_def GetLatestBlock_def
        split: prod.splits outcome.splits json.splits option.splits sum.splits
        dest: InvokeJsonRpcClient_errors)

lemma GetChainID_no_panic: "GetChainID f n networkID rpcURL w \<noteq> (Panic, w')"
  by (auto simp add: GetChainID_def Let_def resolve_client_no_panic
        split: prod.splits outcome.splits option.splits eth_client.splits sum.splits)

lemma events_InvokeJsonRpcClient_post:
  assumes "InvokeJsonRpcClient f n networkID rpcURL m w = (r, w')"
  shows "\<exists>ys. events w' = events w @ ys @ [Post rpcURL m]"
proof -
  obtain r1 w1 where res: "GetChainID f n networkID rpcURL w = (r1, w1)"
    by (cases "GetChainID f n networkID rpcURL w")
  from events_GetChainID [OF res] obtain xs where "events w1 = events w @ xs" by blast
  with assms res GetChainID_no_panic [of f n networkID rpcURL w] GetChainID_no_error [of f n networkID rpcURL w]
  show ?thesis
    by (auto simp add: InvokeJsonRpcClient_def Let_def emit_def
          split: outcome.splits sum.splits)
qed

lemma events_GetLatestBlockNumber_post:
  assumes "GetLatestBlockNumber f n networkID rpcURL w = (r, w')"
  shows "\<exists>ys. events w' = events w @ ys @ [Post rpcURL ''eth_getBlockByNumber'']"
proof -
  obtain r1 w1 where res: "InvokeJsonRpcClient f n networkID rpcURL ''eth_getBlockByNumber'' w = (r1, w1)"
    by (cases "InvokeJsonRpcClient f n networkID rpcURL ''eth_getBlockByNumber'' w")
  from assms res have "w' = w1"
    by (auto simp add: GetLatestBlockNumber_def GetLatestBlock_def
          split: outcome.splits json.splits option.splits sum.splits)
  with events_InvokeJsonRpcClient_post [OF res] show ?thesis by simp
qed

text \<open>
  Claim C3, as amended. When the private key does not parse, \<open>SignTx\<close> of ethereum.go
  returns no signed transaction (it returns an error or panics), but it does not fail
  before the network is used: at least one network interaction has happened whenever it
  returns. The key is parsed last. The error of the key is returned exactly when
  \<open>DialJsonRpc\<close> succeeded, the probe sent by \<open>SignTx\<close> was answered, the chain
  configuration was read, \<open>GetLatestBlockNumber\<close> succeeded, the pending nonce was answered
  and, for a gas limit of 0, the gas price and the gas estimate were answered; for any
  other gas limit the gas price is requested but its failure is ignored, and no estimate
  is requested. The trace then ends with the probe, further interactions of
  \<open>GetLatestBlockNumber\<close>, the post of \<open>eth_getBlockByNumber\<close>, the nonce request, the gas
  price request and, for a gas limit of 0, the estimate request, in this order.
\<close>

theorem SignTx_unparsable_key:
  assumes key: "HexToECDSA lib privateKey = Inl err"
    and run: "SignTx lib n networkID rpcURL from privateKey to data val gasLimit w = (r, w')"
  shows "(\<forall>signedTx hash. r \<noteq> Ok (signedTx, hash)) \<and>
         (\<exists>x xs. events w' = events w @ x # xs) \<and>
         (\<forall>e. r = Error (FailedReadPrivateKey e) \<longrightarrow> e = err) \<and>
         (r = Error (FailedReadPrivateKey err) \<longleftrightarrow>
            (\<exists>c w1 progress w2 cfg w3 blockNumber w4 nonce.
               DialJsonRpc n networkID rpcURL w = (Ok (NewClient c), w1) \<and>
               GetSyncProgress n (Some (NewClient c)) w1 = (Ok progress, w2) \<and>
               GetChainConfig networkID rpcURL w2 = (cfg, w3) \<and>
               GetLatestBlockNumber Ethereum_go n networkID rpcURL w3 = (Ok blockNumber, w4) \<and>
               nonce_reply n (length (events w4)) c from = Inr nonce \<and>
               (gasLimit = 0 \<longrightarrow>
                  (\<exists>price estimate.
                     gasPrice_reply n (Suc (length (events w4))) c = Inr price \<and>
                     estimateGas_reply n (Suc (Suc (length (events w4)))) c
                       (asCallMsg from data to val (word_of_int price) 0) = Inr estimate)))) \<and>
         (r = Error (FailedReadPrivateKey err) \<longrightarrow>
            (\<exists>c xs ys zs.
               events w' = events w @ xs @ Call_SyncProgress c # ys
                 @ Post rpcURL ''eth_getBlockByNumber'' # Call_PendingNonceAt c from
                 # Call_SuggestGasPrice c # zs \<and>
               (gasLimit = 0 \<longrightarrow> (\<exists>msg. zs = [Call_EstimateGas c msg])) \<and>
               (gasLimit \<noteq> 0 \<longrightarrow> zs = [])))"
  (is "?A \<and> ?B \<and> ?C \<and> (?K \<longleftrightarrow> ?R) \<and> (?K \<longrightarrow> ?T)")
proof -
  have early: "?A \<and> ?B \<and> ?C \<and> (?K \<longleftrightarrow> ?R) \<and> (?K \<longrightarrow> ?T)"
    if "r = Panic \<or> (\<exists>e. r = Error e \<and> (\<forall>m. e \<noteq> FailedReadPrivateKey m))"
      and "\<exists>x xs. events w' = events w @ x # xs" and "\<not> ?R"
    using that by auto
  obtain r1 w1 where d: "DialJsonRpc n networkID rpcURL w = (r1, w1)"
    by (cases "DialJsonRpc n networkID rpcURL w")
  from events_DialJsonRpc [OF d] obtain x xs where e1: "events w1 = events w @ x # xs" by blast
  show ?thesis
  proof (cases r1)
    case Panic
    with d have False by (simp add: DialJsonRpc_no_panic)
    then show ?thesis ..
  next
    case (Error e)
    with d DialJsonRpc_error_shape obtain m where "e = FromLibrary m" by blast
    moreover from run d Error have "r = Error e" "w' = w1" by (simp_all add: SignTx_def)
    moreover from d Error have "\<not> ?R" by simp
    ultimately show ?thesis using e1 by (intro early) auto
  next
    case (Ok client)
    obtain c where c: "client = NewClient c" by (cases client)
    obtain r2 w2 where p: "GetSyncProgress n (Some (NewClient c)) w1 = (r2, w2)"
      by (cases "GetSyncProgress n (Some (NewClient c)) w1")
    from events_GetSyncProgress [OF p] e1
    have e2: "events w2 = events w @ (x # xs) @ [Call_SyncProgress c]" by simp
    show ?thesis
    proof (cases r2)
      case Panic
      with p have False by (simp add: GetSyncProgress_no_panic)
      then show ?thesis ..
    next
      case (Error e)
      with p GetSyncProgress_errors obtain m where "e = FromLibrary m" by blast
      moreover from run d Ok c p Error have "r = Error e" "w' = w2" by (simp_all add: SignTx_def)
      moreover from d Ok c p Error have "\<not> ?R" by simp
      ultimately show ?thesis using e2 by (intro early) auto
    next
      case progress: (Ok progress)
      obtain cfg w3 where g: "GetChainConfig networkID rpcURL w2 = (cfg, w3)"
        by (cases "GetChainConfig networkID rpcURL w2")
      from events_GetChainConfig [OF g] e2
      have e3: "events w3 = events w @ (x # xs) @ [Call_SyncProgress c]" by simp
      obtain r4 w4 where b: "GetLatestBlockNumber Ethereum_go n networkID rpcURL w3 = (r4, w4)"
        by (cases "GetLatestBlockNumber Ethereum_go n networkID rpcURL w3")
      from events_GetLatestBlockNumber_post [OF b] e3
      obtain ys where e4: "events w4 = events w @ (x # xs) @ Call_SyncProgress c # ys
          @ [Post rpcURL ''eth_getBlockByNumber'']" by auto
      then have grow4: "\<exists>x xs. events w4 = events w @ x # xs" by simp
      note steps = d Ok c p progress g b
      note unfold = SignTx_def steps
      show ?thesis
      proof (cases r4)
        case Panic
        with run have "r = Panic" "w' = w4" by (simp_all add: unfold)
        moreover from steps Panic have "\<not> ?R" by simp
        ultimately show ?thesis using grow4 by (intro early) auto
      next
        case (Error e)
        with b GetLatestBlockNumber_errors have "\<forall>m. e \<noteq> FailedReadPrivateKey m" by blast
        moreover from run Error have "r = Error e" "w' = w4" by (simp_all add: unfold)
        moreover from steps Error have "\<not> ?R" by simp
        ultimately show ?thesis using grow4 by (intro early) auto
      next
        case bn: (Ok blockNumber)
        show ?thesis
        proof (cases "nonce_reply n (length (events w4)) c from")
          case (Inl m)
          with run bn have "r = Error (FromLibrary m)" "w' = emit (Call_PendingNonceAt c from) w4"
            by (simp_all add: unfold Let_def)
          moreover from steps bn Inl have "\<not> ?R" by simp
          ultimately show ?thesis using grow4 by (intro early) (auto simp add: events_emit)
        next
          case nonce: (Inr nonce)
          define w6 where "w6 = emit (Call_SuggestGasPrice c) (emit (Call_PendingNonceAt c from) w4)"
          have e6: "events w6 = events w @ (x # xs) @ Call_SyncProgress c # ys
              @ Post rpcURL ''eth_getBlockByNumber'' # Call_PendingNonceAt c from
              # Call_SuggestGasPrice c # []"
            by (simp add: w6_def events_emit e4)
          then have grow6: "\<exists>x xs. events w6 = events w @ x # xs" by simp
          have l5: "length (events (emit (Call_PendingNonceAt c from) w4)) = Suc (length (events w4))"
            and l6: "length (events w6) = Suc (Suc (length (events w4)))"
            by (simp_all add: w6_def events_emit)
          show ?thesis
          proof (cases "gasLimit = 0")
            case False
            with run bn nonce key have res: "r = Error (FailedReadPrivateKey err)" "w' = w6"
              by (simp_all add: unfold Let_def w6_def sign_transaction_unparsable)
            from steps bn nonce False have R: ?R by simp
            from res e6 False have T: ?T
              by (intro impI exI [of _ c] exI [of _ "x # xs"] exI [of _ ys] exI [of _ "[]"]) simp
            from res grow6 R T show ?thesis by auto
          next
            case zero: True
            show ?thesis
            proof (cases "gasPrice_reply n (Suc (length (events w4))) c")
              case (Inl m)
              with run bn nonce zero have "r = Panic" "w' = w6"
                by (simp_all add: unfold Let_def w6_def l5)
              moreover from steps bn nonce zero Inl have "\<not> ?R" by simp
              ultimately show ?thesis using grow6 by (intro early) auto
            next
              case price: (Inr price)
              let ?msg = "asCallMsg from data to val (word_of_int price) 0"
              define w7 where "w7 = emit (Call_EstimateGas c ?msg) w6"
              have e7: "events w7 = events w6 @ [Call_EstimateGas c ?msg]"
                by (simp add: w7_def events_emit)
              with grow6 have grow7: "\<exists>x xs. events w7 = events w @ x # xs" by auto
              show ?thesis
              proof (cases "estimateGas_reply n (Suc (Suc (length (events w4)))) c ?msg")
                case (Inl m)
                with run bn nonce zero price
                have "r = Error (FailedToEstimateGas m)" "w' = w7"
                  by (simp_all add: unfold Let_def w6_def w7_def l5 events_emit)
                moreover from steps bn nonce zero price Inl have "\<not> ?R" by simp
                ultimately show ?thesis using grow7 by (intro early) auto
              next
                case estimate: (Inr estimate)
                with run bn nonce zero price key
                have res: "r = Error (FailedReadPrivateKey err)" "w' = w7"
                  by (simp_all add: unfold Let_def w6_def w7_def l5 events_emit
                        sign_transaction_unparsable)
                from steps bn nonce zero price estimate have R: ?R by simp
                from res e6 e7 zero have T: ?T
                  by (intro impI exI [of _ c] exI [of _ "x # xs"] exI [of _ ys]
                        exI [of _ "[Call_EstimateGas c ?msg]"]) simp
                from res grow7 R T show ?thesis by auto
              qed
            qed
          qed
        qed
      qed
    qed
  qed
qed

lemmas sign_defs =
  SignTx_def GetLatestBlockNumber_def GetLatestBlock_def InvokeJsonRpcClient_def GetChainID_def
  resolve_client_def DialJsonRpc_def ResolveJsonRpcClient_def GetSyncProgress_def
  GetChainConfig_def clearCachedClients_def emit_def asCallMsg_def sign_transaction_def deref_def
  DecodeUint64_def ParseUint_def digit_value_def Let_def

lemma SignTx_example_run:
  "SignTx example_signing example_node ''1'' ''http://node:8545''
       ''0xa1'' ''not a key'' (Some ''0xb2'') None None 0 initial_world
     = (Error (FailedReadPrivateKey ''invalid hex string''),
        initial_world
          \<lparr>ethclientRpcClients := (\<lambda>networkID. [])(''1'' := [NewClient 0]),
           ethrpcClients := (\<lambda>networkID. [])(''1'' := [0, 0]),
           events :=
             [Dial ''http://node:8545'', Call_SyncProgress 0, Call_SyncProgress 0,
              Call_SyncProgress 0, Call_NetworkID 0,
              Post ''http://node:8545'' ''eth_getBlockByNumber'',
              Call_PendingNonceAt 0 ''0xa1'', Call_SuggestGasPrice 0,
              Call_EstimateGas 0
                \<lparr>msg_From = ''0xa1'', msg_To = Some ''0xb2'', msg_Gas = 0,
                 msg_GasPrice = 1000000000, msg_Value = None, msg_Data = None\<rparr>]\<rparr>)"
  by (simp add: sign_defs example_signing_def example_node_def initial_world_def)

theorem SignTx_unparsable_key_witness:
  "HexToECDSA example_signing ''not a key'' = Inl ''invalid hex string''
   \<and> fst (SignTx example_signing example_node ''1'' ''http://node:8545''
            ''0xa1'' ''not a key'' (Some ''0xb2'') None None 0 initial_world)
       = Error (FailedReadPrivateKey ''invalid hex string'')
   \<and> (\<exists>c w1 progress w2 cfg w3 blockNumber w4 nonce.
         DialJsonRpc example_node ''1'' ''http://node:8545'' initial_world = (Ok (NewClient c), w1) \<and>
         GetSyncProgress example_node (Some (NewClient c)) w1 = (Ok progress, w2) \<and>
         GetChainConfig ''1'' ''http://node:8545'' w2 = (cfg, w3) \<and>
         GetLatestBlockNumber Ethereum_go example_node ''1'' ''http://node:8545'' w3
           = (Ok blockNumber, w4) \<and>
         nonce_reply example_node (length (events w4)) c ''0xa1'' = Inr nonce \<and>
         (\<exists>price estimate.
            gasPrice_reply example_node (Suc (length (events w4))) c = Inr price \<and>
            estimateGas_reply example_node (Suc (Suc (length (events w4)))) c
              (asCallMsg ''0xa1'' None (Some ''0xb2'') None (word_of_int price) 0) = Inr estimate))
   \<and> (\<exists>c xs ys zs.
         events (snd (SignTx example_signing example_node ''1'' ''http://node:8545''
            ''0xa1'' ''not a key'' (Some ''0xb2'') None None 0 initial_world))
         = events initial_world @ xs @ Call_SyncProgress c # ys
             @ Post ''http://node:8545'' ''eth_getBlockByNumber'' # Call_PendingNonceAt c ''0xa1''
             # Call_SuggestGasPrice c # zs
         \<and> (\<exists>msg. zs = [Call_EstimateGas c msg]))"
proof -
  have key: "HexToECDSA example_signing ''not a key'' = Inl ''invalid hex string''"
    by (simp add: example_signing_def digit_value_def)
  obtain w' where
    run: "SignTx example_signing example_node ''1'' ''http://node:8545''
            ''0xa1'' ''not a key'' (Some ''0xb2'') None None 0 initial_world
          = (Error (FailedReadPrivateKey ''invalid hex string''), w')"
    using SignTx_example_run by blast
  note inst = SignTx_unparsable_key [OF key run]
  note steps = inst [THEN conjunct2, THEN conjunct2, THEN conjunct2, THEN conjunct1, simplified]
  note trace = inst [THEN conjunct2, THEN conjunct2, THEN conjunct2, THEN conjunct2, simplified]
  have r: "fst (SignTx example_signing example_node ''1'' ''http://node:8545''
            ''0xa1'' ''not a key'' (Some ''0xb2'') None None 0 initial_world)
       = Error (FailedReadPrivateKey ''invalid hex string'')"
    and w: "snd (SignTx example_signing example_node ''1'' ''http://node:8545''
            ''0xa1'' ''not a key'' (Some ''0xb2'') None None 0 initial_world) = w'"
    by (simp_all add: run)
  show ?thesis
    unfolding r w
    using key steps trace by simp
qed

text \<open>
  The claim as stated: no network interaction precedes the error of the key. On a node
  that answers everything, from the empty cache, nine interactions precede it.
\<close>

theorem SignTx_unparsable_key_after_network:
  "HexToECDSA example_signing ''not a key'' = Inl ''invalid hex string''
   \<and> fst (SignTx example_signing example_node ''1'' ''http://node:8545''
            ''0xa1'' ''not a key'' (Some ''0xb2'') None None 0 initial_world)
       = Error (FailedReadPrivateKey ''invalid hex string'')
   \<and> events initial_world = []
   \<and> events (snd (SignTx example_signing example_node ''1'' ''http://node:8545''
            ''0xa1'' ''not a key'' (Some ''0xb2'') None None 0 initial_world))
       = [Dial ''http://node:8545'', Call_SyncProgress 0, Call_SyncProgress 0,
          Call_SyncProgress 0, Call_NetworkID 0,
          Post ''http://node:8545'' ''eth_getBlockByNumber'',
          Call_PendingNonceAt 0 ''0xa1'', Call_SuggestGasPrice 0,
          Call_EstimateGas 0
            \<lparr>msg_From = ''0xa1'', msg_To = Some ''0xb2'', msg_Gas = 0,
             msg_GasPrice = 1000000000, msg_Value = None, msg_Data = None\<rparr>]"
  by (simp add: SignTx_example_run) (simp add: example_signing_def digit_value_def initial_world_def)

text \<open>
  The error of \<open>SuggestGasPrice\<close> is dropped. With a gas limit that is not 0 the failed
  gas price request does not keep \<open>SignTx\<close> from reaching the key, whose error is
  returned; with a gas limit of 0 the nil gas price is dereferenced and the call panics.
\<close>

lemma SignTx_gas_price_failure_ignored:
  "fst (SignTx example_signing no_gas_price_node ''1'' ''http://node:8545''
          ''0xa1'' ''not a key'' (Some ''0xb2'') None None 50000 initial_world)
     = Error (FailedReadPrivateKey ''invalid hex string'')"
  by (simp add: sign_defs example_signing_def no_gas_price_node_def example_node_def
        initial_world_def)

lemma SignTx_gas_price_failure_panics:
  "fst (SignTx example_signing no_gas_price_node ''1'' ''http://node:8545''
          ''0xa1'' ''not a key'' (Some ''0xb2'') None None 0 initial_world)
     = Panic"
  by (simp add: sign_defs example_signing_def no_gas_price_node_def example_node_def
        initial_world_def)

text \<open>
  In api/privacy/models.go too no signed transaction is returned for such a key, at least
  one network interaction has happened when \<open>SignTx\<close> returns, and the nonce and the gas
  price have been requested before the error of the key is returned.
\<close>

lemma SignTx_models_unparsable_key:
  assumes key: "HexToECDSA lib privateKey = Inl err"
    and run: "SignTx_models lib n networkID rpcURL from privateKey to data val w = (r, w')"
  shows "(\<forall>signedTx hash. r \<noteq> Ok (signedTx, hash)) \<and>
         (\<exists>x xs. events w' = events w @ x # xs) \<and>
         (\<forall>e. r = Error (FailedReadPrivateKey e) \<longrightarrow>
            e = err \<and>
            (\<exists>c xs ys. events w' =
               events w @ xs @ Call_PendingNonceAt c from # Call_SuggestGasPrice c # ys))"
proof -
  have early: "?thesis"
    if "r = Panic \<or> (\<exists>e. r = Error e \<and> (\<forall>m. e \<noteq> FailedReadPrivateKey m))"
      and "\<exists>x xs. events w' = events w @ x # xs"
    using that by auto
  show ?thesis
  proof (cases "length (ethclientRpcClients w networkID) = 0")
    case True
    obtain r1 w1 where d: "DialJsonRpc n networkID rpcURL w = (r1, w1)"
      by (cases "DialJsonRpc n networkID rpcURL w")
    from events_DialJsonRpc [OF d] obtain x xs where e1: "events w1 = events w @ x # xs" by blast
    show ?thesis
    proof (cases r1)
      case Panic
      with d DialJsonRpc_no_panic show ?thesis by blast
    next
      case (Error e)
      with d DialJsonRpc_error_shape obtain m where "e = FromLibrary m" by blast
      moreover from run d Error True have "r = Error e" "w' = w1"
        by (simp_all add: SignTx_models_def ResolveEthClient_def Let_def)
      ultimately show ?thesis using e1 by (intro early) auto
    next
      case (Ok client)
      with run d True have "r = Panic" "events w' = events w1"
        by (auto simp add: SignTx_models_def ResolveEthClient_def Let_def GetSyncProgress_def)
      with e1 show ?thesis by (intro early) auto
    qed
  next
    case False
    obtain c where c: "hd (ethclientRpcClients w networkID) = NewClient c"
      by (cases "hd (ethclientRpcClients w networkID)")
    from False c have res: "ResolveEthClient n networkID rpcURL w = (Ok (Some (NewClient c)), w)"
      by (simp add: ResolveEthClient_def Let_def)
    obtain r2 w2 where p: "GetSyncProgress n (Some (NewClient c)) w = (r2, w2)"
      by (cases "GetSyncProgress n (Some (NewClient c)) w")
    from events_GetSyncProgress [OF p]
    have e2: "events w2 = events w @ [Call_SyncProgress c]" by simp
    show ?thesis
    proof (cases r2)
      case Panic
      with p GetSyncProgress_no_panic show ?thesis by blast
    next
      case (Error e)
      with p GetSyncProgress_errors obtain m where "e = FromLibrary m" by blast
      moreover from run res p Error have "r = Error e" "w' = w2"
        by (simp_all add: SignTx_models_def)
      ultimately show ?thesis using e2 by (intro early) auto
    next
      case progress: (Ok progress)
      obtain cfg w3 where g: "GetChainConfig networkID rpcURL w2 = (cfg, w3)"
        by (cases "GetChainConfig networkID rpcURL w2")
      from events_GetChainConfig [OF g] e2
      have e3: "events w3 = events w @ [Call_SyncProgress c]" by simp
      obtain r4 w4 where b: "GetLatestBlockNumber Privacy_models_go n networkID rpcURL w3 = (r4, w4)"
        by (cases "GetLatestBlockNumber Privacy_models_go n networkID rpcURL w3")
      from events_GetLatestBlockNumber [OF b] e3
      obtain zs where e4: "events w4 = events w @ Call_SyncProgress c # zs" by auto
      note unfold = SignTx_models_def res p progress g b
      show ?thesis
      proof (cases r4)
        case Panic
        with run have "r = Panic" "w' = w4" by (simp_all add: unfold)
        with e4 show ?thesis by (intro early) auto
      next
        case (Error e)
        with b GetLatestBlockNumber_errors have "\<forall>m. e \<noteq> FailedReadPrivateKey m" by blast
        moreover from run Error have "r = Error e" "w' = w4" by (simp_all add: unfold)
        ultimately show ?thesis using e4 by (intro early) auto
      next
        case bn: (Ok blockNumber)
        show ?thesis
        proof (cases "nonce_reply n (length (events w4)) c from")
          case (Inl m)
          with run bn have "r = Error (FromLibrary m)" "w' = emit (Call_PendingNonceAt c from) w4"
            by (simp_all add: unfold Let_def)
          with e4 show ?thesis by (intro early) (auto simp add: events_emit)
        next
          case (Inr nonce)
          define w6 where "w6 = emit (Call_SuggestGasPrice c) (emit (Call_PendingNonceAt c from) w4)"
          have e6: "events w6 =
              events w @ (Call_SyncProgress c # zs) @ Call_PendingNonceAt c from # Call_SuggestGasPrice c # []"
            by (simp add: w6_def events_emit e4)
          from run bn Inr key
          have "(r = Panic \<or> (\<exists>m. r = Error (FailedToEstimateGas m))
                   \<or> r = Error (FailedReadPrivateKey err)) \<and>
                (w' = w6 \<or> (\<exists>msg. w' = emit (Call_EstimateGas c msg) w6))"
            by (auto simp add: unfold Let_def w6_def sign_transaction_unparsable
                  split: if_splits option.splits sum.splits)
          then obtain ys where
            r: "r = Panic \<or> (\<exists>m. r = Error (FailedToEstimateGas m)) \<or> r = Error (FailedReadPrivateKey err)"
            and e7: "events w' =
              events w @ (Call_SyncProgress c # zs) @ Call_PendingNonceAt c from # Call_SuggestGasPrice c # ys"
            using e6 by (auto simp add: events_emit)
          from e7 have grow: "\<exists>x xs. events w' = events w @ x # xs" by simp
          from r e7 grow show ?thesis by blast
        qed
      qed
    qed
  qed
qed

section \<open>The connection cache in sequence\<close>

text \<open>
  Two calls of \<open>DialJsonRpc\<close> one after the other dial once: the second finds the cached
  client and only probes it. The list of low-level clients then holds the one client
  twice, since \<open>ResolveJsonRpcClient\<close> and \<open>DialJsonRpc\<close> both append it.
\<close>

lemma DialJsonRpc_twice_in_sequence:
  "events (snd (DialJsonRpc example_node ''1'' ''http://node:8545''
       (snd (DialJsonRpc example_node ''1'' ''http://node:8545'' initial_world))))
     = [Dial ''http://node:8545'', Call_SyncProgress 0, Call_SyncProgress 0]
   \<and> ethclientRpcClients (snd (DialJsonRpc example_node ''1'' ''http://node:8545''
       (snd (DialJsonRpc example_node ''1'' ''http://node:8545'' initial_world)))) ''1''
     = [NewClient 0]
   \<and> ethrpcClients (snd (DialJsonRpc example_node ''1'' ''http://node:8545''
       (snd (DialJsonRpc example_node ''1'' ''http://node:8545'' initial_world)))) ''1''
     = [0, 0]"
  by (simp add: DialJsonRpc_def ResolveJsonRpcClient_def GetSyncProgress_def emit_def Let_def
        example_node_def initial_world_def)

section \<open>Properties of the keystore export\<close>

lemma slice_Some: "slice s lo hi = Some r \<Longrightarrow> 0 \<le> lo \<and> lo \<le> hi \<and> hi \<le> int (length s) \<and> r = take (nat (hi - lo)) (drop (nat lo) s)"
  by (auto simp add: slice_def split: if_splits)

text \<open>
  Claim C5. Every document that \<open>MarshalEncryptedKey\<close> returns has the version-3 layout:
  \<open>id\<close>, \<open>address\<close>, \<open>crypto\<close> and \<open>version\<close> 3; under \<open>crypto\<close> the cipher
  \<open>aes-128-ctr\<close>, the ciphertext, the initialisation vector, the kdf \<open>scrypt\<close> with the
  parameters \<open>dklen\<close> 32, \<open>n\<close> 4096, \<open>p\<close> 6, \<open>r\<close> 4 and the salt that was read, and a
  \<open>mac\<close> that is the Keccak-256 hash of bytes 16 to 32 of the derived key followed by the
  ciphertext; the derived key is the one \<open>scrypt.Key\<close> gives for the passphrase, that salt
  and those parameters, and the ciphertext is the key encrypted under its first 16 bytes.
\<close>

theorem MarshalEncryptedKey_layout:
  assumes "MarshalEncryptedKey lib rand addr keyBytes secret = Ok doc"
  shows "\<exists>saltRead ivRead derivedKey cipherText.
           rand 0 32 = Inr saltRead \<and> rand 1 16 = Inr ivRead \<and>
           scrypt_Key lib (bytes_of_string secret) (filled 32 saltRead) 4096 4 6 32 = Inr derivedKey \<and>
           32 \<le> length derivedKey \<and>
           aesCTRXOR lib (take 16 derivedKey) keyBytes (filled 16 ivRead) = Ok cipherText \<and>
           doc = JObject
             [(''id'', JString (fst (generateKeyUUID (rand 2 16)))),
              (''address'', JString (EncodeToString addr)),
              (''crypto'', JObject
                 [(''cipher'', JString ''aes-128-ctr''),
                  (''ciphertext'', JString (EncodeToString cipherText)),
                  (''cipherparams'', JObject [(''iv'', JString (EncodeToString (filled 16 ivRead)))]),
                  (''kdf'', JString ''scrypt''),
                  (''kdfparams'', JObject
                     [(''dklen'', JNumber 32), (''n'', JNumber 4096), (''p'', JNumber 6),
                      (''r'', JNumber 4),
                      (''salt'', JString (EncodeToString (filled 32 saltRead)))]),
                  (''mac'', JString (EncodeToString
                     (Keccak256 lib (take 16 (drop 16 derivedKey) @ cipherText))))]),
              (''version'', JNumber 3)]"
  using assms
  by (auto simp add: MarshalEncryptedKey_def Let_def
        split: sum.splits option.splits outcome.splits dest!: slice_Some)

text \<open>A concrete export, with every field written out.\<close>

lemma replicate_numeral: "replicate (numeral k) x = x # replicate (pred_numeral k) x"
  by (simp add: numeral_eq_Suc)

lemma list_update_Cons_numeral: "(x # xs)[numeral v := y] = x # xs[numeral v - 1 := y]"
  by (simp add: numeral_eq_Suc)

lemma filled_replicate: "filled len (replicate len x) = replicate len x"
  by (simp add: filled_def)

lemma xor_stream_constant:
  "map (\<lambda>i. replicate k x ! i XOR c) [0..<k] = replicate k (x XOR c)"
  by (intro nth_equalityI) simp_all

lemma example_uuid:
  "fst (generateKeyUUID (example_random 2 16)) = ''03030303-0303-4303-8303-030303030303''"
  by (simp add: generateKeyUUID_def example_random_def filled_def Let_def
        replicate_numeral list_update_Cons_numeral EncodeToString_def hex_char_def)

lemma example_cipherText:
  "aesCTRXOR example_crypto (replicate 16 7) (replicate 32 1) (replicate 16 2) = Ok (replicate 32 254)"
  using xor_stream_constant [of 32 "1::byte" 255]
  by (simp add: aesCTRXOR_def example_crypto_def)

lemma example_strings:
  "EncodeToString (replicate 20 (170::byte)) = ''aaaaaaaaaaaaaaaaaaaaaaaaaaaaaaaaaaaaaaaa''"
  "EncodeToString (replicate 32 (254::byte)) = ''fefefefefefefefefefefefefefefefefefefefefefefefefefefefefefefefe''"
  "EncodeToString (replicate 16 (2::byte)) = ''02020202020202020202020202020202''"
  "EncodeToString (replicate 32 (1::byte)) = ''0101010101010101010101010101010101010101010101010101010101010101''"
  "EncodeToString (replicate 16 (8::byte) @ replicate 16 254) = ''08080808080808080808080808080808fefefefefefefefefefefefefefefefe''"
  by (simp_all add: EncodeToString_def hex_char_def replicate_numeral)

lemma example_derivedKey_slices:
  "slice (replicate 16 (7::byte) @ replicate 16 8) 0 16 = Some (replicate 16 7)"
  "slice (replicate 16 (7::byte) @ replicate 16 8) 16 32 = Some (replicate 16 8)"
  by (simp_all add: slice_def)

lemma example_mac:
  "filled 32 (replicate 16 (8::byte) @ replicate 32 254) = replicate 16 8 @ replicate 16 254"
  by (simp add: filled_def)

lemma MarshalEncryptedKey_example:
  "MarshalEncryptedKey example_crypto example_random (replicate 20 170) (replicate 32 1) ''secret'' =
     Ok (JObject
       [(''id'', JString ''03030303-0303-4303-8303-030303030303''),
        (''address'', JString ''aaaaaaaaaaaaaaaaaaaaaaaaaaaaaaaaaaaaaaaa''),
        (''crypto'', JObject
           [(''cipher'', JString ''aes-128-ctr''),
            (''ciphertext'', JString ''fefefefefefefefefefefefefefefefefefefefefefefefefefefefefefefefe''),
            (''cipherparams'', JObject [(''iv'', JString ''02020202020202020202020202020202'')]),
            (''kdf'', JString ''scrypt''),
            (''kdfparams'', JObject
               [(''dklen'', JNumber 32), (''n'', JNumber 4096), (''p'', JNumber 6),
                (''r'', JNumber 4),
                (''salt'', JString ''0101010101010101010101010101010101010101010101010101010101010101'')]),
            (''mac'', JString ''08080808080808080808080808080808fefefefefefefefefefefefefefefefe'')]),
        (''version'', JNumber 3)])"
proof -
  have r0: "example_random 0 32 = Inr (replicate 32 1)" and r1: "example_random 1 16 = Inr (replicate 16 2)"
    by (simp_all add: example_random_def)
  have k: "scrypt_Key example_crypto (bytes_of_string ''secret'') (replicate 32 1) (2 ^ 12) 4 6 32
             = Inr (replicate 16 7 @ replicate 16 8)"
    by (simp add: example_crypto_def)
  have h: "Keccak256 example_crypto (replicate 16 8 @ replicate 32 254) = replicate 16 8 @ replicate 16 254"
    using example_mac by (simp add: example_crypto_def)
  show ?thesis
    unfolding MarshalEncryptedKey_def Let_def
    by (simp only: r0 r1 filled_replicate k example_derivedKey_slices example_cipherText h
          example_uuid example_strings sum.case option.case outcome.case)
       simp
qed

theorem MarshalEncryptedKey_layout_witness:
  "(\<exists>doc. MarshalEncryptedKey example_crypto example_random (replicate 20 170) (replicate 32 1) ''secret''
            = Ok doc
          \<and> map_of (case doc of JObject fs \<Rightarrow> fs | _ \<Rightarrow> []) ''version'' = Some (JNumber 3)
          \<and> (\<exists>saltRead ivRead derivedKey cipherText.
                example_random 0 32 = Inr saltRead \<and> example_random 1 16 = Inr ivRead \<and>
                scrypt_Key example_crypto (bytes_of_string ''secret'') (filled 32 saltRead) 4096 4 6 32
                  = Inr derivedKey \<and>
                aesCTRXOR example_crypto (take 16 derivedKey) (replicate 32 1) (filled 16 ivRead)
                  = Ok cipherText))"
proof -
  from MarshalEncryptedKey_example obtain doc where
    run: "MarshalEncryptedKey example_crypto example_random (replicate 20 170) (replicate 32 1) ''secret''
            = Ok doc"
    and v: "map_of (case doc of JObject fs \<Rightarrow> fs | _ \<Rightarrow> []) ''version'' = Some (JNumber 3)"
    by simp
  from MarshalEncryptedKey_layout [OF run]
  have "\<exists>saltRead ivRead derivedKey cipherText.
                example_random 0 32 = Inr saltRead \<and> example_random 1 16 = Inr ivRead \<and>
                scrypt_Key example_crypto (bytes_of_string ''secret'') (filled 32 saltRead) 4096 4 6 32
                  = Inr derivedKey \<and>
                aesCTRXOR example_crypto (take 16 derivedKey) (replicate 32 1) (filled 16 ivRead)
                  = Ok cipherText"
    by blast
  with run v show ?thesis by blast
qed

text \<open>
  \<open>aesCTRXOR\<close> is its own inverse: under the same key and vector it turns the ciphertext
  back into the text.
\<close>

lemma aesCTRXOR_roundtrip:
  assumes "aesCTRXOR lib key inText iv = Ok cipherText"
  shows "aesCTRXOR lib key cipherText iv = Ok inText"
proof -
  let ?s = "aes_ctr_stream lib key iv"
  from assms have ok: "length key \<in> {16, 24, 32}" "length iv = 16"
    and ct: "cipherText = map (\<lambda>i. inText ! i XOR ?s i) [0..<length inText]"
    by (auto simp add: aesCTRXOR_def split: if_splits)
  from ct have len: "length cipherText = length inText" by simp
  have "map (\<lambda>i. cipherText ! i XOR ?s i) [0..<length cipherText] = inText"
  proof (intro nth_equalityI)
    show "length (map (\<lambda>i. cipherText ! i XOR ?s i) [0..<length cipherText]) = length inText"
      using len by simp
  next
    fix i
    assume "i < length (map (\<lambda>i. cipherText ! i XOR ?s i) [0..<length cipherText])"
    then have i: "i < length inText" using len by simp
    then have "cipherText ! i = inText ! i XOR ?s i" by (simp add: ct)
    then have "cipherText ! i XOR ?s i = inText ! i" by (simp add: xor.assoc)
    with i len show "map (\<lambda>i. cipherText ! i XOR ?s i) [0..<length cipherText] ! i = inText ! i"
      by simp
  qed
  with ok show ?thesis by (simp add: aesCTRXOR_def)
qed

section \<open>Further concrete runs\<close>

text \<open>
  With a key that parses, \<open>SignTx\<close> returns the signed transaction and its hash; with
  every method served, \<open>GetNetworkStatus\<close> returns the synced status with the peer count
  of \<open>net_peerCount\<close>; and on the node whose \<open>net_peerCount\<close> fails, the panic of
  \<open>GetPeerCount\<close> is recovered inside \<open>GetNetworkStatus\<close>, which then returns neither a
  status nor an error.
\<close>

lemma SignTx_example_signed:
  "fst (SignTx example_signing example_node ''1'' ''http://node:8545'' ''0xa1''
          ''00000000000000000000000000000000000000000000000000000000000000a1''
          (Some ''0xb2'') None None 0 initial_world)
     = Ok ((\<lparr>tx_Nonce = 7, tx_To = Some ''0xb2'', tx_Value = None, tx_GasLimit = 21000,
            tx_GasPrice = Some 1000000000, tx_Data = None\<rparr>, replicate 65 2),
           Some ''0x0303030303030303030303030303030303030303030303030303030303030303'')"
  by (simp add: sign_defs example_signing_def example_node_def initial_world_def stringOrNil_def
        EncodeToString_def hex_char_def replicate_numeral)

lemma GetNetworkStatus_synced:
  "\<exists>status.
     fst (GetNetworkStatus Ethereum_go serving_node ''1'' ''http://node:8545'' initial_world)
       = Ok (Some status) \<and>
     status_State status = Some ''synced'' \<and> status_Block status = 42 \<and>
     status_LastBlockAt status = Some 93 \<and> status_PeerCount status = 5 \<and>
     status_ChainID status = Some ''0x1'' \<and> status_ProtocolVersion status = Some ''0x3f'' \<and>
     status_Meta status ''last_block_header''
       = Some (JObject [(''number'', JString ''0x2a''), (''timestamp'', JString ''0x5d'')])"
  by (simp add: GetNetworkStatus_def GetNetworkStatus_body_def GetProtocolVersion_def
        GetLatestBlock_def final_status_def run_defs serving_node_def example_node_def
        initial_world_def stringOrNil_def EncodeBig_def hex_of_nat.simps hex_char_def
        DecodeUint64_def ParseUint_def digit_value_def)

lemma GetNetworkStatus_recovers_peer_count_panic:
  "fst (GetNetworkStatus Ethereum_go example_node ''1'' ''http://node:8545'' initial_world) = Ok None"
  by (simp add: GetNetworkStatus_def GetNetworkStatus_body_def run_defs example_node_def
        initial_world_def)
end
